theory Spec2Isabelle
  imports Complex_Main
begin

section \<open>Python values, exceptions and sequencing\<close>

text \<open>
  The two functions of \<^verbatim>\<open>qc2/ase/dirac.py\<close> modelled here are the FCIDUMP reader
  \<^verbatim>\<open>DIRAC.get_integrals\<close> and the part of \<^verbatim>\<open>DIRAC.save\<close> that turns the sparse
  integrals into dense matrices and tensors (the "wavefunction group").
  Every exception the Python can raise there is a value of \<open>error\<close>; a computation that
  may raise has type \<open>error + 'a\<close>, with \<open>Inl\<close> the exception.
  Floating-point numbers are idealised as real numbers.
\<close>

datatype error = IndexError | ValueError | KeyError | TypeError

definition ebind :: "error + 'a \<Rightarrow> ('a \<Rightarrow> error + 'b) \<Rightarrow> error + 'b" where
  "ebind m f = (case m of Inl e \<Rightarrow> Inl e | Inr x \<Rightarrow> f x)"

text \<open>
  A Python scalar as it is stored in the sparse dictionaries: a real number (an \<^verbatim>\<open>int\<close> or
  a \<^verbatim>\<open>float\<close>) or a \<^verbatim>\<open>complex\<close>. The distinction is the type of the Python object, not
  its value: \<open>PyComplex\<close> of a number with imaginary part 0 is still a \<^verbatim>\<open>complex\<close>.
\<close>

datatype pyval = PyReal real | PyComplex complex

text \<open>A \<^verbatim>\<open>for\<close> loop over a list, with the loop body threading the state;
  the first exception ends the loop.\<close>

fun for_each :: "('a \<Rightarrow> 's \<Rightarrow> error + 's) \<Rightarrow> 'a list \<Rightarrow> 's \<Rightarrow> error + 's" where
  "for_each body [] st = Inr st"
| "for_each body (x # xs) st = ebind (body x st) (for_each body xs)"

text \<open>\<^verbatim>\<open>xs[i]\<close> for a non-negative index: \<^verbatim>\<open>IndexError\<close> out of range.\<close>

definition item :: "'a list \<Rightarrow> nat \<Rightarrow> error + 'a" where
  "item xs i = (if i < length xs then Inr (xs ! i) else Inl IndexError)"

text \<open>\<^verbatim>\<open>d[k]\<close> on a dictionary: \<^verbatim>\<open>KeyError\<close> when the key is absent.\<close>

definition lookup :: "('k \<rightharpoonup> 'v) \<Rightarrow> 'k \<Rightarrow> error + 'v" where
  "lookup d k = (case d k of None \<Rightarrow> Inl KeyError | Some v \<Rightarrow> Inr v)"


section \<open>The FCIDUMP reader: \<^verbatim>\<open>DIRAC.get_integrals\<close>\<close>

subsection \<open>Strings\<close>

text \<open>\<^verbatim>\<open>str.isspace\<close> on the characters with code below 256.\<close>

definition isspace :: "char \<Rightarrow> bool" where
  "isspace c \<longleftrightarrow> (of_char c :: nat) \<in> {9, 10, 11, 12, 13, 28, 29, 30, 31, 32, 133, 160}"

text \<open>\<^verbatim>\<open>line.split()\<close>: the maximal runs of non-whitespace characters.
  \<open>tokens cur s\<close> carries the token being read.\<close>

fun tokens :: "string \<Rightarrow> string \<Rightarrow> string list" where
  "tokens cur [] = (if cur = [] then [] else [cur])"
| "tokens cur (c # cs) =
     (if isspace c then (if cur = [] then tokens [] cs else cur # tokens [] cs)
      else tokens (cur @ [c]) cs)"

definition py_split :: "string \<Rightarrow> string list" where
  "py_split line = tokens [] line"

text \<open>\<^verbatim>\<open>pat in line\<close>: \<open>pat\<close> occurs somewhere in \<open>line\<close> as a contiguous substring.\<close>

fun contains :: "string \<Rightarrow> string \<Rightarrow> bool" where
  "contains pat [] = (pat = [])"
| "contains pat (c # cs) = (take (length pat) (c # cs) = pat \<or> contains pat cs)"

subsection \<open>Number conversion\<close>

text \<open>
  Python's built-in \<^verbatim>\<open>int(token)\<close> and \<^verbatim>\<open>float(token)\<close> are parameters of the model:
  \<open>py_int\<close> and \<open>py_float\<close> give the number a token denotes, or \<open>None\<close> where the
  built-in raises \<^verbatim>\<open>ValueError\<close>. Every theorem below holds for any such pair.
\<close>

definition to_int :: "(string \<Rightarrow> int option) \<Rightarrow> string \<Rightarrow> error + int" where
  "to_int py_int tok = (case py_int tok of None \<Rightarrow> Inl ValueError | Some i \<Rightarrow> Inr i)"

definition to_float :: "(string \<Rightarrow> real option) \<Rightarrow> string \<Rightarrow> error + real" where
  "to_float py_float tok = (case py_float tok of None \<Rightarrow> Inl ValueError | Some x \<Rightarrow> Inr x)"

text \<open>
  For evaluation on concrete files: the conversions on plain decimal literals, an optional
  sign followed by digits, and for \<open>dec_float\<close> an optional fraction after a point.
  On these literals they agree with \<^verbatim>\<open>int\<close> and \<^verbatim>\<open>float\<close>.
\<close>

definition digit :: "char \<Rightarrow> nat option" where
  "digit c = (let n = (of_char c :: nat) in if 48 \<le> n \<and> n \<le> 57 then Some (n - 48) else None)"

fun digits :: "nat \<Rightarrow> string \<Rightarrow> nat option" where
  "digits acc [] = Some acc"
| "digits acc (c # cs) = (case digit c of None \<Rightarrow> None | Some d \<Rightarrow> digits (10 * acc + d) cs)"

definition dec_nat :: "string \<Rightarrow> nat option" where
  "dec_nat s = (if s = [] then None else digits 0 s)"

definition dec_int :: "string \<Rightarrow> int option" where
  "dec_int s =
     (case s of
        c # r \<Rightarrow>
          if c = CHR ''-'' then map_option (\<lambda>n. - int n) (dec_nat r)
          else if c = CHR ''+'' then map_option int (dec_nat r)
          else map_option int (dec_nat s)
      | [] \<Rightarrow> None)"

definition dec_ufloat :: "string \<Rightarrow> real option" where
  "dec_ufloat s =
     (let ip = takeWhile (\<lambda>c. c \<noteq> CHR ''.'') s; rest = dropWhile (\<lambda>c. c \<noteq> CHR ''.'') s
      in case rest of
           [] \<Rightarrow> map_option real (dec_nat ip)
         | _ # fp \<Rightarrow>
             (case (dec_nat ip, dec_nat fp) of
                (Some i, Some f) \<Rightarrow> Some (real i + real f / 10 ^ length fp)
              | _ \<Rightarrow> None))"

definition dec_float :: "string \<Rightarrow> real option" where
  "dec_float s =
     (case s of
        c # r \<Rightarrow>
          if c = CHR ''-'' then map_option uminus (dec_ufloat r)
          else if c = CHR ''+'' then dec_ufloat r
          else dec_ufloat s
      | [] \<Rightarrow> None)"

subsection \<open>The sparse store\<close>

text \<open>The tuple \<^verbatim>\<open>(e_core, spinor, one_body_int, two_body_int)\<close> that
  \<^verbatim>\<open>get_integrals\<close> builds and returns. Dictionary keys are Python integers.\<close>

record integrals =
  e_core :: pyval
  spinor :: "int \<rightharpoonup> pyval"
  one_body_int :: "int \<times> int \<rightharpoonup> pyval"
  two_body_int :: "int \<times> int \<times> int \<times> int \<rightharpoonup> pyval"

text \<open>Lines 537 to 540: \<^verbatim>\<open>e_core = 0\<close> and three empty dictionaries.\<close>

definition init_integrals :: integrals where
  "init_integrals =
     \<lparr>e_core = PyReal 0, spinor = Map.empty, one_body_int = Map.empty,
      two_body_int = Map.empty\<rparr>"

subsection \<open>Header\<close>

text \<open>
  Lines 543 to 547: the loop over the lines of the file that counts the lines read in
  \<^verbatim>\<open>start_reading\<close> and breaks at the first line with \<^verbatim>\<open>"&END" in line\<close>.
  The result is the counter and the lines the file object has not yet handed out.
\<close>

fun skip_header :: "string list \<Rightarrow> nat \<Rightarrow> nat \<times> string list" where
  "skip_header [] start_reading = (start_reading, [])"
| "skip_header (line # rest) start_reading =
     (if contains ''&END'' line then (Suc start_reading, rest)
      else skip_header rest (Suc start_reading))"

subsection \<open>Rows\<close>

text \<open>
  The body of the loop of lines 554 to 570 (real values): the four indices are tokens
  1 to 4, converted in this order; the value \<open>val\<close> is \<^verbatim>\<open>float(row[0])\<close>, evaluated in
  the branch taken.
\<close>

definition real_row ::
  "(string \<Rightarrow> int option) \<Rightarrow> (string \<Rightarrow> real option) \<Rightarrow> string list \<Rightarrow> integrals
    \<Rightarrow> error + integrals" where
  "real_row py_int py_float row st =
     ebind (ebind (item row 1) (to_int py_int)) (\<lambda>a_1.
     ebind (ebind (item row 2) (to_int py_int)) (\<lambda>a_2.
     ebind (ebind (item row 3) (to_int py_int)) (\<lambda>a_3.
     ebind (ebind (item row 4) (to_int py_int)) (\<lambda>a_4.
       let val = ebind (item row 0) (to_float py_float) in
       if a_4 = 0 \<and> a_3 = 0 then
         if a_2 = 0 then
           if a_1 = 0 then ebind val (\<lambda>v. Inr (st\<lparr>e_core := PyReal v\<rparr>))
           else ebind val (\<lambda>v. Inr (st\<lparr>spinor := (spinor st)(a_1 \<mapsto> PyReal v)\<rparr>))
         else
           ebind val (\<lambda>v.
             Inr (st\<lparr>one_body_int := (one_body_int st)((a_1, a_2) \<mapsto> PyReal v)\<rparr>))
       else
         ebind val (\<lambda>v.
           Inr (st\<lparr>two_body_int :=
                    (two_body_int st)((a_1, a_2, a_3, a_4) \<mapsto> PyReal v)\<rparr>))))))"

text \<open>
  The body of the loop of lines 572 to 594 (complex values): the indices are tokens 2 to 5,
  the value \<open>val\<close> is \<^verbatim>\<open>complex(float(row[0]), float(row[1]))\<close>, evaluated in the
  branch taken.
\<close>

definition complex_row ::
  "(string \<Rightarrow> int option) \<Rightarrow> (string \<Rightarrow> real option) \<Rightarrow> string list \<Rightarrow> integrals
    \<Rightarrow> error + integrals" where
  "complex_row py_int py_float row st =
     ebind (ebind (item row 2) (to_int py_int)) (\<lambda>a_1.
     ebind (ebind (item row 3) (to_int py_int)) (\<lambda>a_2.
     ebind (ebind (item row 4) (to_int py_int)) (\<lambda>a_3.
     ebind (ebind (item row 5) (to_int py_int)) (\<lambda>a_4.
       let val =
         ebind (ebind (item row 0) (to_float py_float)) (\<lambda>re.
         ebind (ebind (item row 1) (to_float py_float)) (\<lambda>im.
           Inr (PyComplex (Complex re im))))
       in
       if a_4 = 0 \<and> a_3 = 0 then
         if a_2 = 0 then
           if a_1 = 0 then ebind val (\<lambda>v. Inr (st\<lparr>e_core := v\<rparr>))
           else ebind val (\<lambda>v. Inr (st\<lparr>spinor := (spinor st)(a_1 \<mapsto> v)\<rparr>))
         else
           ebind val (\<lambda>v.
             Inr (st\<lparr>one_body_int := (one_body_int st)((a_1, a_2) \<mapsto> v)\<rparr>))
       else
         ebind val (\<lambda>v.
           Inr (st\<lparr>two_body_int := (two_body_int st)((a_1, a_2, a_3, a_4) \<mapsto> v)\<rparr>))))))"

text \<open>
  Lines 541 to 596. The file is the list of its lines. \<^verbatim>\<open>listed_values[0]\<close> raises
  \<^verbatim>\<open>IndexError\<close> when no line follows the header; the row loop runs over
  \<^verbatim>\<open>range(num_lines - start_reading)\<close> and reads \<^verbatim>\<open>listed_values[row]\<close>.
\<close>

definition get_integrals ::
  "(string \<Rightarrow> int option) \<Rightarrow> (string \<Rightarrow> real option) \<Rightarrow> string list \<Rightarrow> error + integrals" where
  "get_integrals py_int py_float file =
     (let num_lines = length file;
          (start_reading, rest) = skip_header file 0;
          listed_values = map py_split rest
      in ebind (item listed_values 0) (\<lambda>first_row.
           let complex_int = (length first_row = 6)
           in for_each
                (\<lambda>row st.
                   ebind (item listed_values row) (\<lambda>toks.
                     if \<not> complex_int then real_row py_int py_float toks st
                     else complex_row py_int py_float toks st))
                [0 ..< num_lines - start_reading]
                init_integrals))"


subsection \<open>Vocabulary for the statements about rows\<close>

text \<open>
  The four index fields of a tokenised row, as the row loops read them: the tokens at
  positions \<open>off\<close> to \<open>off + 3\<close> (\<open>off = 1\<close> in the real layout, \<open>2\<close> in the complex
  one), when the row has them and \<^verbatim>\<open>int\<close> accepts all four.
\<close>

definition index_fields ::
  "(string \<Rightarrow> int option) \<Rightarrow> nat \<Rightarrow> string list \<Rightarrow> (int \<times> int \<times> int \<times> int) option" where
  "index_fields py_int off row =
     (if off + 3 < length row then
        (case (py_int (row ! off), py_int (row ! (off + 1)),
               py_int (row ! (off + 2)), py_int (row ! (off + 3))) of
           (Some a_1, Some a_2, Some a_3, Some a_4) \<Rightarrow> Some (a_1, a_2, a_3, a_4)
         | _ \<Rightarrow> None)
      else None)"


section \<open>The dense expansion: the wavefunction group of \<^verbatim>\<open>DIRAC.save\<close>\<close>

subsection \<open>Dense arrays\<close>

text \<open>
  A NumPy array of \<^verbatim>\<open>dtype=np.float64\<close> is the function from index tuples to its
  cells. \<^verbatim>\<open>np.zeros\<close> is the constant 0. The loops below only touch indices in
  \<^verbatim>\<open>range(nmo)\<close>, the shape of every array, so no access is out of range.
\<close>

type_synonym matrix = "nat \<times> nat \<Rightarrow> real"
type_synonym tensor = "nat \<times> nat \<times> nat \<times> nat \<Rightarrow> real"

definition zeros :: "'i \<Rightarrow> real" where
  "zeros = (\<lambda>_. 0)"

text \<open>
  The number a \<^verbatim>\<open>float64\<close> array stores on \<^verbatim>\<open>arr[i] = v\<close> for a Python scalar \<open>v\<close>:
  NumPy converts with \<^verbatim>\<open>float(v)\<close>, which raises \<^verbatim>\<open>TypeError\<close> on a \<^verbatim>\<open>complex\<close>.
\<close>

fun setitem :: "pyval \<Rightarrow> error + real" where
  "setitem (PyReal x) = Inr x"
| "setitem (PyComplex z) = Inl TypeError"

text \<open>
  \<^verbatim>\<open>np.conj(v)\<close> of a Python scalar is a NumPy scalar: \<^verbatim>\<open>np.float64\<close> with the same
  value for a real, \<^verbatim>\<open>np.complex128\<close> with the conjugate for a \<^verbatim>\<open>complex\<close>.
  Storing a NumPy complex scalar into a \<^verbatim>\<open>float64\<close> array keeps its real part (with a
  \<^verbatim>\<open>ComplexWarning\<close>, which is not an exception).
\<close>

datatype npval = NpReal real | NpComplex complex

fun np_conj :: "pyval \<Rightarrow> npval" where
  "np_conj (PyReal x) = NpReal x"
| "np_conj (PyComplex z) = NpComplex (cnj z)"

fun setitem_np :: "npval \<Rightarrow> error + real" where
  "setitem_np (NpReal x) = Inr x"
| "setitem_np (NpComplex z) = Inr (Re z)"

text \<open>Line 300, and the statement \<^verbatim>\<open>arr[np.abs(arr) < EQ_TOLERANCE] = 0.\<close> of lines
  325 to 328 and 427 to 434.\<close>

definition EQ_TOLERANCE :: real where
  "EQ_TOLERANCE = 1 / 10 ^ 8"

definition truncate_small :: "('i \<Rightarrow> real) \<Rightarrow> ('i \<Rightarrow> real)" where
  "truncate_small arr = (\<lambda>i. if \<bar>arr i\<bar> < EQ_TOLERANCE then 0 else arr i)"

subsection \<open>One-body coefficients\<close>

record one_body =
  one_body_coefficients_a :: matrix
  one_body_coefficients_b :: matrix

text \<open>The body of the loops of lines 307 to 322. Each assignment evaluates its right-hand
  side, the dictionary access, and then stores.\<close>

definition one_body_cell ::
  "(int \<times> int \<rightharpoonup> pyval) \<Rightarrow> nat \<Rightarrow> nat \<Rightarrow> one_body \<Rightarrow> error + one_body" where
  "one_body_cell one_body_integrals p q st =
     (let alpha_p = 2 * int p + 1; alpha_q = 2 * int q + 1;
          beta_p = 2 * int p + 2; beta_q = 2 * int q + 2
      in ebind (lookup one_body_integrals (alpha_p, alpha_q)) (\<lambda>va.
         ebind (setitem va) (\<lambda>xa.
         let st = st\<lparr>one_body_coefficients_a := (one_body_coefficients_a st)((p, q) := xa)\<rparr>
         in ebind (lookup one_body_integrals (beta_p, beta_q)) (\<lambda>vb.
            ebind (setitem vb) (\<lambda>xb.
            Inr (st\<lparr>one_body_coefficients_b :=
                       (one_body_coefficients_b st)((p, q) := xb)\<rparr>))))))"

text \<open>Lines 303 to 328: allocation, the two nested loops, truncation.\<close>

definition one_body_fill :: "nat \<Rightarrow> (int \<times> int \<rightharpoonup> pyval) \<Rightarrow> error + one_body" where
  "one_body_fill nmo one_body_integrals =
     for_each (\<lambda>p. for_each (\<lambda>q. one_body_cell one_body_integrals p q) [0 ..< nmo])
       [0 ..< nmo]
       \<lparr>one_body_coefficients_a = zeros, one_body_coefficients_b = zeros\<rparr>"

definition one_body_truncate :: "one_body \<Rightarrow> one_body" where
  "one_body_truncate st =
     \<lparr>one_body_coefficients_a = truncate_small (one_body_coefficients_a st),
      one_body_coefficients_b = truncate_small (one_body_coefficients_b st)\<rparr>"

subsection \<open>Two-body coefficients\<close>

record two_body =
  two_body_coefficients_aa :: tensor
  two_body_coefficients_bb :: tensor
  two_body_coefficients_ab :: tensor
  two_body_coefficients_ba :: tensor

text \<open>
  The four assignments that every branch makes to one array, in the order of the source:
  \<^verbatim>\<open>arr[p, q, r, s] = term\<close>, \<^verbatim>\<open>arr[q, p, s, r] = term\<close>,
  \<^verbatim>\<open>arr[r, s, p, q] = np.conj(term)\<close>, \<^verbatim>\<open>arr[s, r, q, p] = np.conj(term)\<close>.
\<close>

definition sym_fill :: "tensor \<Rightarrow> nat \<Rightarrow> nat \<Rightarrow> nat \<Rightarrow> nat \<Rightarrow> pyval \<Rightarrow> error + tensor" where
  "sym_fill arr p q r s term =
     ebind (setitem term) (\<lambda>x1. let arr = arr((p, q, r, s) := x1) in
     ebind (setitem term) (\<lambda>x2. let arr = arr((q, p, s, r) := x2) in
     ebind (setitem_np (np_conj term)) (\<lambda>x3. let arr = arr((r, s, p, q) := x3) in
     ebind (setitem_np (np_conj term)) (\<lambda>x4. Inr (arr((s, r, q, p) := x4))))))"

text \<open>Lines 360 to 387: the alpha-alpha key fills the arrays aa, ba, ab, bb, in this order.\<close>

definition aa_branch ::
  "(int \<times> int \<times> int \<times> int \<rightharpoonup> pyval) \<Rightarrow> nat \<Rightarrow> nat \<Rightarrow> nat \<Rightarrow> nat \<Rightarrow> two_body
    \<Rightarrow> error + two_body" where
  "aa_branch two_body_integrals p q r s st =
     (case two_body_integrals (2 * int p + 1, 2 * int q + 1, 2 * int r + 1, 2 * int s + 1) of
        None \<Rightarrow> Inr st
      | Some aa_term \<Rightarrow>
          ebind (sym_fill (two_body_coefficients_aa st) p q r s aa_term) (\<lambda>aa.
          ebind (sym_fill (two_body_coefficients_ba st) p q r s aa_term) (\<lambda>ba.
          ebind (sym_fill (two_body_coefficients_ab st) p q r s aa_term) (\<lambda>ab.
          ebind (sym_fill (two_body_coefficients_bb st) p q r s aa_term) (\<lambda>bb.
            Inr \<lparr>two_body_coefficients_aa = aa, two_body_coefficients_bb = bb,
                 two_body_coefficients_ab = ab, two_body_coefficients_ba = ba\<rparr>)))))"

text \<open>Lines 390 to 400.\<close>

definition bb_branch ::
  "(int \<times> int \<times> int \<times> int \<rightharpoonup> pyval) \<Rightarrow> nat \<Rightarrow> nat \<Rightarrow> nat \<Rightarrow> nat \<Rightarrow> two_body
    \<Rightarrow> error + two_body" where
  "bb_branch two_body_integrals p q r s st =
     (case two_body_integrals (2 * int p + 2, 2 * int q + 2, 2 * int r + 2, 2 * int s + 2) of
        None \<Rightarrow> Inr st
      | Some bb_term \<Rightarrow>
          ebind (sym_fill (two_body_coefficients_bb st) p q r s bb_term) (\<lambda>bb.
            Inr (st\<lparr>two_body_coefficients_bb := bb\<rparr>)))"

text \<open>Lines 402 to 412.\<close>

definition ab_branch ::
  "(int \<times> int \<times> int \<times> int \<rightharpoonup> pyval) \<Rightarrow> nat \<Rightarrow> nat \<Rightarrow> nat \<Rightarrow> nat \<Rightarrow> two_body
    \<Rightarrow> error + two_body" where
  "ab_branch two_body_integrals p q r s st =
     (case two_body_integrals (2 * int p + 1, 2 * int q + 2, 2 * int r + 2, 2 * int s + 1) of
        None \<Rightarrow> Inr st
      | Some ab_term \<Rightarrow>
          ebind (sym_fill (two_body_coefficients_ab st) p q r s ab_term) (\<lambda>ab.
            Inr (st\<lparr>two_body_coefficients_ab := ab\<rparr>)))"

text \<open>Lines 414 to 424.\<close>

definition ba_branch ::
  "(int \<times> int \<times> int \<times> int \<rightharpoonup> pyval) \<Rightarrow> nat \<Rightarrow> nat \<Rightarrow> nat \<Rightarrow> nat \<Rightarrow> two_body
    \<Rightarrow> error + two_body" where
  "ba_branch two_body_integrals p q r s st =
     (case two_body_integrals (2 * int p + 2, 2 * int q + 1, 2 * int r + 1, 2 * int s + 2) of
        None \<Rightarrow> Inr st
      | Some ba_term \<Rightarrow>
          ebind (sym_fill (two_body_coefficients_ba st) p q r s ba_term) (\<lambda>ba.
            Inr (st\<lparr>two_body_coefficients_ba := ba\<rparr>)))"

text \<open>The body of the four nested loops: the four \<^verbatim>\<open>if\<close> statements in sequence.\<close>

definition two_body_cell ::
  "(int \<times> int \<times> int \<times> int \<rightharpoonup> pyval) \<Rightarrow> nat \<Rightarrow> nat \<Rightarrow> nat \<Rightarrow> nat \<Rightarrow> two_body
    \<Rightarrow> error + two_body" where
  "two_body_cell two_body_integrals p q r s st =
     ebind (aa_branch two_body_integrals p q r s st) (\<lambda>st.
     ebind (bb_branch two_body_integrals p q r s st) (\<lambda>st.
     ebind (ab_branch two_body_integrals p q r s st) (\<lambda>st.
     ba_branch two_body_integrals p q r s st)))"

text \<open>Lines 332 to 424: allocation and the four nested loops.\<close>

definition two_body_fill ::
  "nat \<Rightarrow> (int \<times> int \<times> int \<times> int \<rightharpoonup> pyval) \<Rightarrow> error + two_body" where
  "two_body_fill nmo two_body_integrals =
     for_each (\<lambda>p.
       for_each (\<lambda>q.
         for_each (\<lambda>r.
           for_each (\<lambda>s. two_body_cell two_body_integrals p q r s) [0 ..< nmo])
         [0 ..< nmo])
       [0 ..< nmo])
     [0 ..< nmo]
     \<lparr>two_body_coefficients_aa = zeros, two_body_coefficients_bb = zeros,
      two_body_coefficients_ab = zeros, two_body_coefficients_ba = zeros\<rparr>"

text \<open>Lines 427 to 434.\<close>

definition two_body_truncate :: "two_body \<Rightarrow> two_body" where
  "two_body_truncate st =
     \<lparr>two_body_coefficients_aa = truncate_small (two_body_coefficients_aa st),
      two_body_coefficients_bb = truncate_small (two_body_coefficients_bb st),
      two_body_coefficients_ab = truncate_small (two_body_coefficients_ab st),
      two_body_coefficients_ba = truncate_small (two_body_coefficients_ba st)\<rparr>"

subsection \<open>The whole expansion\<close>

text \<open>
  The arrays that \<^verbatim>\<open>save\<close> writes to the wavefunction group (before \<^verbatim>\<open>flatten\<close>), under
  the names of their datasets. \<open>nmo\<close> is the number of spatial orbitals the caller read
  from the DIRAC output, \<open>one_body_integrals\<close> and \<open>two_body_integrals\<close> the
  dictionaries of \<^verbatim>\<open>get_integrals\<close>. Lines 298 to 434, in the order of the source:
  one-body loops, one-body truncation, two-body loops, two-body truncation.
\<close>

record wavefunction =
  scf_fock_mo_a :: matrix
  scf_fock_mo_b :: matrix
  scf_eri_mo_aa :: tensor
  scf_eri_mo_bb :: tensor
  scf_eri_mo_ba :: tensor
  scf_eri_mo_ab :: tensor

definition save_wavefunction ::
  "nat \<Rightarrow> (int \<times> int \<rightharpoonup> pyval) \<Rightarrow> (int \<times> int \<times> int \<times> int \<rightharpoonup> pyval)
    \<Rightarrow> error + wavefunction" where
  "save_wavefunction nmo one_body_integrals two_body_integrals =
     ebind (one_body_fill nmo one_body_integrals) (\<lambda>ob.
     let ob = one_body_truncate ob in
     ebind (two_body_fill nmo two_body_integrals) (\<lambda>tb.
     let tb = two_body_truncate tb in
     Inr \<lparr>scf_fock_mo_a = one_body_coefficients_a ob,
          scf_fock_mo_b = one_body_coefficients_b ob,
          scf_eri_mo_aa = two_body_coefficients_aa tb,
          scf_eri_mo_bb = two_body_coefficients_bb tb,
          scf_eri_mo_ba = two_body_coefficients_ba tb,
          scf_eri_mo_ab = two_body_coefficients_ab tb\<rparr>))"


subsection \<open>Vocabulary for the statements about the arrays\<close>

text \<open>A four-index array that is unchanged by swapping the indices inside both pairs, and by
  swapping the two pairs.\<close>

definition symmetric4 :: "tensor \<Rightarrow> bool" where
  "symmetric4 arr \<longleftrightarrow>
     (\<forall>p q r s. arr (p, q, r, s) = arr (q, p, s, r) \<and> arr (p, q, r, s) = arr (r, s, p, q))"

definition all_symmetric :: "two_body \<Rightarrow> bool" where
  "all_symmetric st \<longleftrightarrow>
     symmetric4 (two_body_coefficients_aa st) \<and> symmetric4 (two_body_coefficients_bb st) \<and>
     symmetric4 (two_body_coefficients_ab st) \<and> symmetric4 (two_body_coefficients_ba st)"

text \<open>The state of the two-body loops in which the four arrays are the same array.\<close>

definition blocks_equal :: "two_body \<Rightarrow> bool" where
  "blocks_equal st \<longleftrightarrow>
     two_body_coefficients_bb st = two_body_coefficients_aa st \<and>
     two_body_coefficients_ab st = two_body_coefficients_aa st \<and>
     two_body_coefficients_ba st = two_body_coefficients_aa st"

text \<open>The spin-orbital indices of \<open>nmo\<close> spatial orbitals: \<open>1, \<dots>, 2 * nmo\<close>.\<close>

definition spin_orbitals :: "nat \<Rightarrow> int set" where
  "spin_orbitals nmo = {1 .. 2 * int nmo}"

subsection \<open>Sample inputs for evaluation\<close>

text \<open>
  A real-valued store in the shape of a restricted calculation on two spatial orbitals:
  every one-body key that two orbitals look up, two of them with a value below the
  tolerance, and two-body entries under alpha-alpha keys only.
\<close>

definition h2_one_body :: "int \<times> int \<rightharpoonup> pyval" where
  "h2_one_body = map_of
     [((1, 1), PyReal (- 5 / 4)), ((1, 3), PyReal (1 / 10 ^ 9)), ((3, 1), PyReal (1 / 10 ^ 9)), ((3, 3), PyReal (- 1 / 2)),
      ((2, 2), PyReal (- 5 / 4)), ((2, 4), PyReal 0), ((4, 2), PyReal 0), ((4, 4), PyReal (- 1 / 2))]"

definition h2_two_body :: "int \<times> int \<times> int \<times> int \<rightharpoonup> pyval" where
  "h2_two_body = map_of
     [((1, 1, 1, 1), PyReal (27 / 40)), ((1, 3, 1, 3), PyReal (1 / 5)),
      ((3, 3, 1, 1), PyReal (2 / 3)), ((3, 3, 3, 3), PyReal (7 / 10))]"

text \<open>
  A file in the complex layout (six tokens per row) for one spatial orbital: the one-body
  entries \<open>(1,1)\<close> and \<open>(2,2)\<close> and the two-body entry \<open>(1,2,2,1) = 0.1+0.2i\<close>.
\<close>

definition complex_fcidump :: "string list" where
  "complex_fcidump =
     [''&END'', ''-1.25 0.0 1 1 0 0'', ''-1.25 0.0 2 2 0 0'', ''0.1 0.2 1 2 2 1'']"

section \<open>Sequencing and loops\<close>

lemma ebind_Inl [simp]: "ebind (Inl e) f = Inl e"
  by (simp add: ebind_def)

lemma ebind_Inr [simp]: "ebind (Inr x) f = f x"
  by (simp add: ebind_def)

lemma ebind_eq_Inr: "ebind m f = Inr y \<longleftrightarrow> (\<exists>x. m = Inr x \<and> f x = Inr y)"
  by (cases m) simp_all

lemma for_each_invariant:
  assumes "for_each body xs st = Inr st'" and "P st"
    and "\<And>x s s'. x \<in> set xs \<Longrightarrow> P s \<Longrightarrow> body x s = Inr s' \<Longrightarrow> P s'"
  shows "P st'"
  using assms
proof (induction xs arbitrary: st)
  case Nil
  then show ?case by simp
next
  case (Cons x xs)
  from Cons.prems(1) obtain s1 where s1: "body x st = Inr s1" "for_each body xs s1 = Inr st'"
    by (auto simp: ebind_eq_Inr)
  have "P s1" using Cons.prems(2) Cons.prems(3) [of x st s1] s1(1) by simp
  moreover have "\<And>z s s'. z \<in> set xs \<Longrightarrow> P s \<Longrightarrow> body z s = Inr s' \<Longrightarrow> P s'"
    using Cons.prems(3) by (meson list.set_intros(2))
  ultimately show ?case using Cons.IH [OF s1(2)] by blast
qed

lemma for_each_establish:
  assumes "for_each body xs st = Inr st'" and "x \<in> set xs"
    and "\<And>s s'. body x s = Inr s' \<Longrightarrow> Q s'"
    and "\<And>y s s'. y \<in> set xs \<Longrightarrow> Q s \<Longrightarrow> body y s = Inr s' \<Longrightarrow> Q s'"
  shows "Q st'"
  using assms(1,2,4)
proof (induction xs arbitrary: st)
  case Nil
  then show ?case by simp
next
  case (Cons y ys)
  from Cons.prems(1) obtain s1 where s1: "body y st = Inr s1" "for_each body ys s1 = Inr st'"
    by (auto simp: ebind_eq_Inr)
  have pres: "\<And>z s s'. z \<in> set ys \<Longrightarrow> Q s \<Longrightarrow> body z s = Inr s' \<Longrightarrow> Q s'"
    using Cons.prems(3) by (meson list.set_intros(2))
  show ?case
  proof (cases "x = y")
    case True
    then have "Q s1" using assms(3) s1(1) by simp
    then show ?thesis
      using for_each_invariant [OF s1(2), of Q] pres by blast
  next
    case False
    then have "x \<in> set ys" using Cons.prems(2) by simp
    then show ?thesis using Cons.IH [OF s1(2)] pres by blast
  qed
qed

lemma for_each_cong:
  assumes "\<And>x s. x \<in> set xs \<Longrightarrow> f x s = g x s"
  shows "for_each f xs st = for_each g xs st"
  using assms
proof (induction xs arbitrary: st)
  case Nil
  then show ?case by simp
next
  case (Cons x xs)
  have "for_each f xs = for_each g xs"
    using Cons by (intro ext) simp
  then show ?case using Cons.prems by simp
qed

lemma for_each_total:
  assumes "\<And>x s. x \<in> set xs \<Longrightarrow> P s \<Longrightarrow> \<exists>s'. body x s = Inr s' \<and> P s'" and "P st"
  shows "\<exists>st'. for_each body xs st = Inr st' \<and> P st'"
  using assms
proof (induction xs arbitrary: st)
  case Nil
  then show ?case by simp
next
  case (Cons x xs)
  from Cons.prems obtain s1 where s1: "body x st = Inr s1" "P s1"
    by (meson list.set_intros(1))
  then show ?case using Cons.IH [of s1] Cons.prems(1) by simp
qed

lemma for_each_step_fails:
  assumes "x \<in> set xs" and "\<And>s. isl (body x s)"
  shows "isl (for_each body xs st)"
  using assms(1)
proof (induction xs arbitrary: st)
  case Nil
  then show ?case by simp
next
  case (Cons y ys)
  show ?case
  proof (cases "body y st")
    case (Inl e)
    then show ?thesis by simp
  next
    case (Inr s1)
    show ?thesis
    proof (cases "x = y")
      case True
      then show ?thesis using assms(2) [of st] Inr by simp
    next
      case False
      then show ?thesis using Cons Inr by simp
    qed
  qed
qed

lemma for_each_error:
  assumes "for_each body xs st = Inl e" and "\<And>x s. body x s = Inl e \<Longrightarrow> P"
  shows P
  using assms(1)
proof (induction xs arbitrary: st)
  case Nil
  then show ?case by simp
next
  case (Cons x xs)
  show ?case
  proof (cases "body x st")
    case (Inl e')
    then show ?thesis using Cons.prems assms(2) [of x st] by simp
  next
    case (Inr s1)
    then show ?thesis using Cons by simp
  qed
qed

lemma for_each_map: "for_each (\<lambda>i. body (h i)) ks st = for_each body (map h ks) st"
proof (induction ks arbitrary: st)
  case Nil
  then show ?case by simp
next
  case (Cons k ks)
  have "for_each (\<lambda>i. body (h i)) ks = for_each body (map h ks)"
    using Cons by (intro ext)
  then show ?case by simp
qed

lemma for_each_indices:
  "for_each (\<lambda>i st. ebind (item xs i) (\<lambda>x. body x st)) [0 ..< length xs] st = for_each body xs st"
proof -
  have "for_each (\<lambda>i st. ebind (item xs i) (\<lambda>x. body x st)) [0 ..< length xs] st
      = for_each (\<lambda>i. body (xs ! i)) [0 ..< length xs] st"
    by (rule for_each_cong) (simp add: item_def)
  also have "\<dots> = for_each body (map (\<lambda>i. xs ! i) [0 ..< length xs]) st"
    by (rule for_each_map)
  finally show ?thesis by (simp add: map_nth)
qed

section \<open>Properties of the reader\<close>

subsection \<open>The header and the rows read\<close>

lemma skip_header_split:
  assumes "\<forall>l \<in> set pre. \<not> contains ''&END'' l" and "contains ''&END'' t"
  shows "skip_header (pre @ t # post) n = (n + length pre + 1, post)"
  using assms by (induction pre arbitrary: n) simp_all

lemma skip_header_none:
  assumes "\<forall>l \<in> set fl. \<not> contains ''&END'' l"
  shows "skip_header fl n = (n + length fl, [])"
  using assms by (induction fl arbitrary: n) simp_all

lemma skip_header_count:
  "skip_header fl n = (k, rest) \<Longrightarrow> k + length rest = n + length fl"
  by (induction fl arbitrary: n) (auto split: if_splits)

lemma get_integrals_rest:
  "get_integrals py_int py_float fl =
    (case snd (skip_header fl 0) of
       [] \<Rightarrow> Inl IndexError
     | first_line # _ \<Rightarrow>
         for_each
           (\<lambda>line st.
              if length (py_split first_line) \<noteq> 6 then real_row py_int py_float (py_split line) st
              else complex_row py_int py_float (py_split line) st)
           (snd (skip_header fl 0)) init_integrals)"
proof (cases "skip_header fl 0")
  case (Pair k post)
  have len: "length fl - k = length post"
    using skip_header_count [OF Pair] by simp
  show ?thesis
  proof (cases post)
    case Nil
    then show ?thesis using Pair by (simp add: get_integrals_def item_def)
  next
    case (Cons first_line more)
    let ?lv = "map py_split post"
    let ?body = "\<lambda>toks st. if length (py_split first_line) \<noteq> 6 then real_row py_int py_float toks st
              else complex_row py_int py_float toks st"
    have "get_integrals py_int py_float fl =
      for_each (\<lambda>row st. ebind (item ?lv row) (\<lambda>toks. ?body toks st)) [0 ..< length ?lv] init_integrals"
      using Pair Cons len by (simp add: get_integrals_def item_def)
    also have "\<dots> = for_each ?body ?lv init_integrals"
      by (rule for_each_indices)
    also have "\<dots> = for_each (\<lambda>line. ?body (py_split line)) post init_integrals"
      by (rule for_each_map [symmetric])
    finally show ?thesis using Pair Cons by simp
  qed
qed

lemma get_integrals_rows:
  assumes "\<forall>l \<in> set pre. \<not> contains ''&END'' l" and "contains ''&END'' t"
  shows "get_integrals py_int py_float (pre @ t # post) =
    (case post of
       [] \<Rightarrow> Inl IndexError
     | first_line # _ \<Rightarrow>
         for_each
           (\<lambda>line st.
              if length (py_split first_line) \<noteq> 6 then real_row py_int py_float (py_split line) st
              else complex_row py_int py_float (py_split line) st)
           post init_integrals)"
proof -
  have rest: "snd (skip_header (pre @ t # post) 0) = post"
    using skip_header_split [OF assms, of post 0] by simp
  show ?thesis
    unfolding get_integrals_rest [of py_int py_float "pre @ t # post"] rest by (rule refl)
qed

lemma get_integrals_no_rows:
  assumes "snd (skip_header fl 0) = []"
  shows "get_integrals py_int py_float fl = Inl IndexError"
  using assms by (cases "skip_header fl 0") (simp add: get_integrals_def item_def)

text \<open>
  Claim C9. The header ends at the first line in which \<^verbatim>\<open>&END\<close> occurs, wherever in the
  line it stands: for a file \<open>pre @ t # post\<close> where no line of \<open>pre\<close> contains
  \<^verbatim>\<open>&END\<close> and \<open>t\<close> does, the header loop stops after \<open>t\<close> with
  \<open>start_reading = length pre + 1\<close>, and the reader's result is that of parsing exactly
  the lines of \<open>post\<close> as data rows, in order (the first of them decides between the real
  and the complex layout); no line of \<open>pre\<close> and not \<open>t\<close> is parsed.
\<close>

theorem header_ends_at_first_END_line:
  assumes "\<forall>l \<in> set pre. \<not> contains ''&END'' l" and "contains ''&END'' t"
  shows "skip_header (pre @ t # post) 0 = (length pre + 1, post) \<and>
    get_integrals py_int py_float (pre @ t # post) =
      (case post of
         [] \<Rightarrow> Inl IndexError
       | first_line # _ \<Rightarrow>
           for_each
             (\<lambda>line st.
                if length (py_split first_line) \<noteq> 6
                then real_row py_int py_float (py_split line) st
                else complex_row py_int py_float (py_split line) st)
             post init_integrals)"
  using skip_header_split [OF assms, of post 0] get_integrals_rows [OF assms, of py_int py_float post]
  by simp

theorem header_ends_at_first_END_line_witness:
  "\<not> contains ''&END'' ''$FCI NORB=2,'' \<and> contains ''&END'' '' ISYM=1, &END x'' \<and>
   skip_header ([''$FCI NORB=2,''] @ '' ISYM=1, &END x'' # [''0.5 1 1 0 0'']) 0
     = (length [''$FCI NORB=2,''] + 1, [''0.5 1 1 0 0'']) \<and>
   get_integrals dec_int dec_float ([''$FCI NORB=2,''] @ '' ISYM=1, &END x'' # [''0.5 1 1 0 0''])
     = for_each
         (\<lambda>line st.
            if length (py_split ''0.5 1 1 0 0'') \<noteq> 6
            then real_row dec_int dec_float (py_split line) st
            else complex_row dec_int dec_float (py_split line) st)
         [''0.5 1 1 0 0''] init_integrals"
proof -
  have h1: "\<forall>l \<in> set [''$FCI NORB=2,'']. \<not> contains ''&END'' l" by simp
  have h2: "contains ''&END'' '' ISYM=1, &END x''" by simp
  show ?thesis
    using h1 h2 header_ends_at_first_END_line [OF h1 h2, of "[''0.5 1 1 0 0'']" dec_int dec_float]
    by simp
qed

text \<open>
  Claim C10. The reader is not total: when no line of the file contains \<^verbatim>\<open>&END\<close> (every
  line is consumed as header), or when the first line that contains it is the last line of
  the file (no data row follows), \<^verbatim>\<open>listed_values[0]\<close> raises \<^verbatim>\<open>IndexError\<close>.
\<close>

theorem no_data_row_raises_IndexError:
  assumes "\<forall>l \<in> set hdr. \<not> contains ''&END'' l"
  shows "get_integrals py_int py_float hdr = Inl IndexError \<and>
    (contains ''&END'' t \<longrightarrow> get_integrals py_int py_float (hdr @ [t]) = Inl IndexError)"
proof
  show "get_integrals py_int py_float hdr = Inl IndexError"
    using skip_header_none [OF assms, of 0] by (simp add: get_integrals_no_rows)
  show "contains ''&END'' t \<longrightarrow> get_integrals py_int py_float (hdr @ [t]) = Inl IndexError"
    using skip_header_split [OF assms, of t "[]" 0] by (simp add: get_integrals_no_rows)
qed

theorem no_data_row_raises_IndexError_witness:
  "\<not> contains ''&END'' ''$FCI NORB=2,'' \<and> \<not> contains ''&END'' ''0.5 1 1 0 0'' \<and>
   get_integrals dec_int dec_float [''$FCI NORB=2,'', ''0.5 1 1 0 0''] = Inl IndexError \<and>
   contains ''&END'' '' &END'' \<and>
   get_integrals dec_int dec_float ([''$FCI NORB=2,'', ''0.5 1 1 0 0''] @ ['' &END'']) = Inl IndexError"
proof -
  have h: "\<forall>l \<in> set [''$FCI NORB=2,'', ''0.5 1 1 0 0'']. \<not> contains ''&END'' l" by simp
  have c: "contains ''&END'' '' &END''" by simp
  show ?thesis
    using h c no_data_row_raises_IndexError [OF h, of dec_int dec_float "'' &END''"]
    by simp
qed

subsection \<open>What a row that is accepted stores\<close>

lemma to_int_Inr:
  "ebind (item row i) (to_int py_int) = Inr a \<longleftrightarrow> i < length row \<and> py_int (row ! i) = Some a"
  by (auto simp: item_def to_int_def split: option.splits)

lemma to_float_Inr:
  "ebind (item row i) (to_float py_float) = Inr a \<longleftrightarrow>
    i < length row \<and> py_float (row ! i) = Some a"
  by (auto simp: item_def to_float_def split: option.splits)

lemma real_row_Inr:
  assumes "real_row py_int py_float row st = Inr st'"
  shows "\<exists>a_1 a_2 a_3 a_4 v. 4 < length row \<and> py_float (row ! 0) = Some v \<and>
    py_int (row ! 1) = Some a_1 \<and> py_int (row ! 2) = Some a_2 \<and>
    py_int (row ! 3) = Some a_3 \<and> py_int (row ! 4) = Some a_4 \<and>
    st' = (if a_4 = 0 \<and> a_3 = 0 then
             if a_2 = 0 then
               if a_1 = 0 then st\<lparr>e_core := PyReal v\<rparr>
               else st\<lparr>spinor := (spinor st)(a_1 \<mapsto> PyReal v)\<rparr>
             else st\<lparr>one_body_int := (one_body_int st)((a_1, a_2) \<mapsto> PyReal v)\<rparr>
           else st\<lparr>two_body_int := (two_body_int st)((a_1, a_2, a_3, a_4) \<mapsto> PyReal v)\<rparr>)"
proof -
  obtain a_1 where a1: "ebind (item row 1) (to_int py_int) = Inr a_1"
    using assms by (cases "ebind (item row 1) (to_int py_int)") (simp_all add: real_row_def)
  obtain a_2 where a2: "ebind (item row 2) (to_int py_int) = Inr a_2"
    using assms a1 by (cases "ebind (item row 2) (to_int py_int)") (simp_all add: real_row_def)
  obtain a_3 where a3: "ebind (item row 3) (to_int py_int) = Inr a_3"
    using assms a1 a2 by (cases "ebind (item row 3) (to_int py_int)") (simp_all add: real_row_def)
  obtain a_4 where a4: "ebind (item row 4) (to_int py_int) = Inr a_4"
    using assms a1 a2 a3
    by (cases "ebind (item row 4) (to_int py_int)") (simp_all add: real_row_def)
  obtain v where v: "ebind (item row 0) (to_float py_float) = Inr v"
    using assms a1 a2 a3 a4
    by (cases "ebind (item row 0) (to_float py_float)")
      (simp_all add: real_row_def Let_def split: if_splits)
  have "st' = (if a_4 = 0 \<and> a_3 = 0 then
             if a_2 = 0 then
               if a_1 = 0 then st\<lparr>e_core := PyReal v\<rparr>
               else st\<lparr>spinor := (spinor st)(a_1 \<mapsto> PyReal v)\<rparr>
             else st\<lparr>one_body_int := (one_body_int st)((a_1, a_2) \<mapsto> PyReal v)\<rparr>
           else st\<lparr>two_body_int := (two_body_int st)((a_1, a_2, a_3, a_4) \<mapsto> PyReal v)\<rparr>)"
    using assms a1 a2 a3 a4 v by (auto simp add: real_row_def Let_def split: if_splits)
  moreover have "4 < length row" "py_int (row ! 1) = Some a_1" "py_int (row ! 2) = Some a_2"
    "py_int (row ! 3) = Some a_3" "py_int (row ! 4) = Some a_4" "py_float (row ! 0) = Some v"
    using a1 a2 a3 a4 v by (simp_all add: to_int_Inr to_float_Inr)
  ultimately show ?thesis by blast
qed

lemma complex_row_Inr:
  assumes "complex_row py_int py_float row st = Inr st'"
  shows "\<exists>a_1 a_2 a_3 a_4 re im. 5 < length row \<and> py_float (row ! 0) = Some re \<and>
    py_float (row ! 1) = Some im \<and>
    py_int (row ! 2) = Some a_1 \<and> py_int (row ! 3) = Some a_2 \<and>
    py_int (row ! 4) = Some a_3 \<and> py_int (row ! 5) = Some a_4 \<and>
    st' = (if a_4 = 0 \<and> a_3 = 0 then
             if a_2 = 0 then
               if a_1 = 0 then st\<lparr>e_core := PyComplex (Complex re im)\<rparr>
               else st\<lparr>spinor := (spinor st)(a_1 \<mapsto> PyComplex (Complex re im))\<rparr>
             else st\<lparr>one_body_int :=
                      (one_body_int st)((a_1, a_2) \<mapsto> PyComplex (Complex re im))\<rparr>
           else st\<lparr>two_body_int :=
                    (two_body_int st)((a_1, a_2, a_3, a_4) \<mapsto> PyComplex (Complex re im))\<rparr>)"
proof -
  obtain a_1 where a1: "ebind (item row 2) (to_int py_int) = Inr a_1"
    using assms by (cases "ebind (item row 2) (to_int py_int)") (simp_all add: complex_row_def)
  obtain a_2 where a2: "ebind (item row 3) (to_int py_int) = Inr a_2"
    using assms a1 by (cases "ebind (item row 3) (to_int py_int)") (simp_all add: complex_row_def)
  obtain a_3 where a3: "ebind (item row 4) (to_int py_int) = Inr a_3"
    using assms a1 a2
    by (cases "ebind (item row 4) (to_int py_int)") (simp_all add: complex_row_def)
  obtain a_4 where a4: "ebind (item row 5) (to_int py_int) = Inr a_4"
    using assms a1 a2 a3
    by (cases "ebind (item row 5) (to_int py_int)") (simp_all add: complex_row_def)
  obtain re where re: "ebind (item row 0) (to_float py_float) = Inr re"
    using assms a1 a2 a3 a4
    by (cases "ebind (item row 0) (to_float py_float)")
      (simp_all add: complex_row_def Let_def split: if_splits)
  obtain im where im: "ebind (item row 1) (to_float py_float) = Inr im"
    using assms a1 a2 a3 a4 re
    by (cases "ebind (item row 1) (to_float py_float)")
      (simp_all add: complex_row_def Let_def split: if_splits)
  have "st' = (if a_4 = 0 \<and> a_3 = 0 then
             if a_2 = 0 then
               if a_1 = 0 then st\<lparr>e_core := PyComplex (Complex re im)\<rparr>
               else st\<lparr>spinor := (spinor st)(a_1 \<mapsto> PyComplex (Complex re im))\<rparr>
             else st\<lparr>one_body_int :=
                      (one_body_int st)((a_1, a_2) \<mapsto> PyComplex (Complex re im))\<rparr>
           else st\<lparr>two_body_int :=
                    (two_body_int st)((a_1, a_2, a_3, a_4) \<mapsto> PyComplex (Complex re im))\<rparr>)"
    using assms a1 a2 a3 a4 re im by (auto simp add: complex_row_def Let_def split: if_splits)
  moreover have "5 < length row" "py_int (row ! 2) = Some a_1" "py_int (row ! 3) = Some a_2"
    "py_int (row ! 4) = Some a_3" "py_int (row ! 5) = Some a_4"
    "py_float (row ! 0) = Some re" "py_float (row ! 1) = Some im"
    using a1 a2 a3 a4 re im by (simp_all add: to_int_Inr to_float_Inr)
  ultimately show ?thesis by blast
qed

lemma real_row_one_body_dom:
  assumes "real_row py_int py_float row st = Inr st'"
  shows "dom (one_body_int st') =
    dom (one_body_int st) \<union> {(a, b). b \<noteq> 0 \<and> index_fields py_int 1 row = Some (a, b, 0, 0)}"
proof -
  from real_row_Inr [OF assms] obtain a_1 a_2 a_3 a_4 v where
    len: "4 < length row" and
    idx: "py_int (row ! 1) = Some a_1" "py_int (row ! 2) = Some a_2"
         "py_int (row ! 3) = Some a_3" "py_int (row ! 4) = Some a_4" and
    st': "st' = (if a_4 = 0 \<and> a_3 = 0 then
             if a_2 = 0 then
               if a_1 = 0 then st\<lparr>e_core := PyReal v\<rparr>
               else st\<lparr>spinor := (spinor st)(a_1 \<mapsto> PyReal v)\<rparr>
             else st\<lparr>one_body_int := (one_body_int st)((a_1, a_2) \<mapsto> PyReal v)\<rparr>
           else st\<lparr>two_body_int := (two_body_int st)((a_1, a_2, a_3, a_4) \<mapsto> PyReal v)\<rparr>)"
    by blast
  have f: "index_fields py_int 1 row = Some (a_1, a_2, a_3, a_4)"
    using len idx by (simp add: index_fields_def numeral_eq_Suc)
  show ?thesis
    unfolding f st' by auto
qed

lemma complex_row_one_body_dom:
  assumes "complex_row py_int py_float row st = Inr st'"
  shows "dom (one_body_int st') =
    dom (one_body_int st) \<union> {(a, b). b \<noteq> 0 \<and> index_fields py_int 2 row = Some (a, b, 0, 0)}"
proof -
  from complex_row_Inr [OF assms] obtain a_1 a_2 a_3 a_4 re im where
    len: "5 < length row" and
    idx: "py_int (row ! 2) = Some a_1" "py_int (row ! 3) = Some a_2"
         "py_int (row ! 4) = Some a_3" "py_int (row ! 5) = Some a_4" and
    st': "st' = (if a_4 = 0 \<and> a_3 = 0 then
             if a_2 = 0 then
               if a_1 = 0 then st\<lparr>e_core := PyComplex (Complex re im)\<rparr>
               else st\<lparr>spinor := (spinor st)(a_1 \<mapsto> PyComplex (Complex re im))\<rparr>
             else st\<lparr>one_body_int :=
                      (one_body_int st)((a_1, a_2) \<mapsto> PyComplex (Complex re im))\<rparr>
           else st\<lparr>two_body_int :=
                    (two_body_int st)((a_1, a_2, a_3, a_4) \<mapsto> PyComplex (Complex re im))\<rparr>)"
    by blast
  have f: "index_fields py_int 2 row = Some (a_1, a_2, a_3, a_4)"
    using len idx by (simp add: index_fields_def numeral_eq_Suc)
  show ?thesis
    unfolding f st' by auto
qed

lemma rows_one_body_dom:
  assumes "for_each
      (\<lambda>line st. if real_layout then real_row py_int py_float (py_split line) st
                  else complex_row py_int py_float (py_split line) st) rows st = Inr st'"
  shows "dom (one_body_int st') =
    dom (one_body_int st) \<union>
    {(a, b). b \<noteq> 0 \<and> (\<exists>line \<in> set rows.
       index_fields py_int (if real_layout then 1 else 2) (py_split line) = Some (a, b, 0, 0))}"
  using assms
proof (induction rows arbitrary: st)
  case Nil
  then show ?case by simp
next
  case (Cons line rows)
  let ?body = "\<lambda>line st. if real_layout then real_row py_int py_float (py_split line) st
                  else complex_row py_int py_float (py_split line) st"
  from Cons.prems obtain s1 where s1: "?body line st = Inr s1" "for_each ?body rows s1 = Inr st'"
    by (auto simp: ebind_eq_Inr)
  have step: "dom (one_body_int s1) = dom (one_body_int st) \<union>
      {(a, b). b \<noteq> 0 \<and>
         index_fields py_int (if real_layout then 1 else 2) (py_split line) = Some (a, b, 0, 0)}"
    using s1(1) real_row_one_body_dom complex_row_one_body_dom
    by (cases real_layout) simp_all
  show ?case
    unfolding Cons.IH [OF s1(2)] step by auto
qed

text \<open>
  Claim C7, as stated, fails: the test of line 561 (\<^verbatim>\<open>a_1 == 0\<close>) is only made when
  \<^verbatim>\<open>a_2 == 0\<close>, so the row \<^verbatim>\<open>0.5 0 3 0 0\<close>, whose first index is 0, is stored in
  \<^verbatim>\<open>one_body_int\<close> under the key \<open>(0, 3)\<close>.
\<close>

theorem row_with_idx1_zero_counterexample:
  "\<not> isl (get_integrals dec_int dec_float [''&END'', ''0.5 0 3 0 0'']) \<and>
   one_body_int (projr (get_integrals dec_int dec_float [''&END'', ''0.5 0 3 0 0''])) (0, 3)
     = Some (PyReal (1 / 2))"
  by (simp add: get_integrals_rest py_split_def isspace_def real_row_def item_def to_int_def to_float_def
      dec_int_def dec_float_def dec_ufloat_def dec_nat_def digit_def init_integrals_def)

text \<open>
  Claim C7, amended. For every file the reader accepts, the keys of \<^verbatim>\<open>one_body_int\<close> are
  exactly the pairs \<open>(a, b)\<close> with \<open>b \<noteq> 0\<close> for which some data row (a line after the
  header) has the index fields \<open>idx1 = a\<close>, \<open>idx2 = b\<close>, \<open>idx3 = idx4 = 0\<close>. The first
  index is not tested: it may be 0.
\<close>

theorem one_body_keys_are_the_two_index_rows:
  assumes "get_integrals py_int py_float fl = Inr res"
  shows "dom (one_body_int res) =
    {(a, b). b \<noteq> 0 \<and> (\<exists>line \<in> set (snd (skip_header fl 0)).
       index_fields py_int
         (if length (py_split (hd (snd (skip_header fl 0)))) \<noteq> 6 then 1 else 2)
         (py_split line) = Some (a, b, 0, 0))}"
proof (cases "snd (skip_header fl 0)")
  case Nil
  then show ?thesis using assms get_integrals_rest [of py_int py_float fl] by simp
next
  case (Cons first_line more)
  then have "for_each
      (\<lambda>line st. if length (py_split first_line) \<noteq> 6
                  then real_row py_int py_float (py_split line) st
                  else complex_row py_int py_float (py_split line) st)
      (snd (skip_header fl 0)) init_integrals = Inr res"
    using assms get_integrals_rest [of py_int py_float fl] by simp
  from rows_one_body_dom [OF this] show ?thesis
    using Cons by (simp add: init_integrals_def)
qed

theorem one_body_keys_are_the_two_index_rows_witness:
  "get_integrals dec_int dec_float [''&END'', ''0.5 0 3 0 0'', ''0.25 1 1 1 1''] =
     Inr \<lparr>e_core = PyReal 0, spinor = Map.empty,
          one_body_int = [(0, 3) \<mapsto> PyReal (1 / 2)],
          two_body_int = [(1, 1, 1, 1) \<mapsto> PyReal (1 / 4)]\<rparr> \<and>
   dom [(0 :: int, 3 :: int) \<mapsto> PyReal (1 / 2)] =
    {(a, b). b \<noteq> 0 \<and>
      (\<exists>line \<in> set (snd (skip_header [''&END'', ''0.5 0 3 0 0'', ''0.25 1 1 1 1''] 0)).
       index_fields dec_int
         (if length (py_split (hd (snd (skip_header [''&END'', ''0.5 0 3 0 0'', ''0.25 1 1 1 1''] 0)))) \<noteq> 6
          then 1 else 2)
         (py_split line) = Some (a, b, 0, 0))}"
proof -
  have h: "get_integrals dec_int dec_float [''&END'', ''0.5 0 3 0 0'', ''0.25 1 1 1 1''] =
     Inr \<lparr>e_core = PyReal 0, spinor = Map.empty,
          one_body_int = [(0, 3) \<mapsto> PyReal (1 / 2)],
          two_body_int = [(1, 1, 1, 1) \<mapsto> PyReal (1 / 4)]\<rparr>"
    by (simp add: get_integrals_rest py_split_def isspace_def real_row_def item_def to_int_def
        to_float_def dec_int_def dec_float_def dec_ufloat_def dec_nat_def digit_def
        init_integrals_def)
  show ?thesis
    using h one_body_keys_are_the_two_index_rows [OF h] by simp
qed

subsection \<open>Rows that abort the reader\<close>

lemma real_row_fails:
  assumes "length row < 5 \<or> py_float (row ! 0) = None \<or> py_int (row ! 1) = None \<or>
    py_int (row ! 2) = None \<or> py_int (row ! 3) = None \<or> py_int (row ! 4) = None"
  shows "isl (real_row py_int py_float row st)"
proof (cases "real_row py_int py_float row st")
  case (Inl e)
  then show ?thesis by simp
next
  case (Inr st')
  from real_row_Inr [OF Inr] assms show ?thesis by auto
qed

lemma complex_row_fails:
  assumes "length row < 6 \<or> py_float (row ! 0) = None \<or> py_float (row ! 1) = None \<or>
    py_int (row ! 2) = None \<or> py_int (row ! 3) = None \<or> py_int (row ! 4) = None \<or>
    py_int (row ! 5) = None"
  shows "isl (complex_row py_int py_float row st)"
proof (cases "complex_row py_int py_float row st")
  case (Inl e)
  then show ?thesis by simp
next
  case (Inr st')
  from complex_row_Inr [OF Inr] assms show ?thesis by auto
qed

lemma item_take: "i < n \<Longrightarrow> n \<le> length row \<Longrightarrow> item (take n row) i = item row i"
  by (simp add: item_def)

lemma real_row_take:
  "5 \<le> length row \<Longrightarrow> real_row py_int py_float (take 5 row) st = real_row py_int py_float row st"
  by (simp add: real_row_def item_take)

lemma complex_row_take:
  "6 \<le> length row \<Longrightarrow>
    complex_row py_int py_float (take 6 row) st = complex_row py_int py_float row st"
  by (simp add: complex_row_def item_take)

text \<open>
  Claim C8, as stated, fails: the reader never compares the number of tokens of a row with
  the row width. In a file of the real layout (first row of 5 tokens) the 6-token row
  \<^verbatim>\<open>0.7 2 2 0 0 junk\<close> is accepted; its first five tokens are consumed and the sixth,
  which is not even a number, is ignored.
\<close>

theorem longer_row_accepted_counterexample:
  "length (py_split ''0.5 1 1 0 0'') = 5 \<and> length (py_split ''0.7 2 2 0 0 junk'') = 6 \<and>
   \<not> isl (get_integrals dec_int dec_float [''&END'', ''0.5 1 1 0 0'', ''0.7 2 2 0 0 junk'']) \<and>
   one_body_int
     (projr (get_integrals dec_int dec_float [''&END'', ''0.5 1 1 0 0'', ''0.7 2 2 0 0 junk'']))
     (2, 2) = Some (PyReal (7 / 10))"
  by (simp add: get_integrals_rest py_split_def isspace_def real_row_def item_def to_int_def to_float_def
      dec_int_def dec_float_def dec_ufloat_def dec_nat_def digit_def init_integrals_def)

text \<open>
  Claim C8, amended. A data row with fewer tokens than the row width (5 in the real layout,
  6 in the complex one), or one of whose value or index fields among these leading tokens
  is not numeric, makes the whole call fail (with \<^verbatim>\<open>IndexError\<close> or \<^verbatim>\<open>ValueError\<close>);
  nothing is returned. A row with more tokens than the row width is not rejected: it is
  read as its leading 5 (or 6) tokens, the others are ignored.
\<close>

theorem short_or_non_numeric_row_aborts:
  assumes "line \<in> set (snd (skip_header fl 0))" and "row = py_split line"
    and "if length (py_split (hd (snd (skip_header fl 0)))) \<noteq> 6
         then length row < 5 \<or> py_float (row ! 0) = None \<or> py_int (row ! 1) = None \<or>
              py_int (row ! 2) = None \<or> py_int (row ! 3) = None \<or> py_int (row ! 4) = None
         else length row < 6 \<or> py_float (row ! 0) = None \<or> py_float (row ! 1) = None \<or>
              py_int (row ! 2) = None \<or> py_int (row ! 3) = None \<or> py_int (row ! 4) = None \<or>
              py_int (row ! 5) = None"
  shows "isl (get_integrals py_int py_float fl) \<and>
    (\<forall>toks st. 5 \<le> length toks \<longrightarrow>
       real_row py_int py_float toks st = real_row py_int py_float (take 5 toks) st) \<and>
    (\<forall>toks st. 6 \<le> length toks \<longrightarrow>
       complex_row py_int py_float toks st = complex_row py_int py_float (take 6 toks) st)"
proof (intro conjI allI impI)
  obtain first_line more where rest: "snd (skip_header fl 0) = first_line # more"
    using assms(1) by (cases "snd (skip_header fl 0)") auto
  let ?body = "\<lambda>line st. if length (py_split first_line) \<noteq> 6
                  then real_row py_int py_float (py_split line) st
                  else complex_row py_int py_float (py_split line) st"
  have "\<And>st. isl (?body line st)"
    using assms(2,3) rest real_row_fails [where row = row and py_float = py_float and py_int = py_int]
      complex_row_fails [where row = row and py_float = py_float and py_int = py_int]
    by (simp split: if_splits)
  then have "isl (for_each ?body (snd (skip_header fl 0)) init_integrals)"
    using assms(1) by (rule for_each_step_fails [rotated])
  then show "isl (get_integrals py_int py_float fl)"
    using rest get_integrals_rest [of py_int py_float fl] by simp
qed (simp_all add: real_row_take complex_row_take)

theorem short_or_non_numeric_row_aborts_witness:
  "''0.7 2 x 0 0'' \<in> set (snd (skip_header [''&END'', ''0.5 1 1 0 0'', ''0.7 2 x 0 0''] 0)) \<and>
   length (py_split (hd (snd (skip_header [''&END'', ''0.5 1 1 0 0'', ''0.7 2 x 0 0''] 0)))) \<noteq> 6 \<and>
   dec_int (py_split ''0.7 2 x 0 0'' ! 2) = None \<and>
   isl (get_integrals dec_int dec_float [''&END'', ''0.5 1 1 0 0'', ''0.7 2 x 0 0''])"
proof -
  have h1: "''0.7 2 x 0 0'' \<in> set (snd (skip_header [''&END'', ''0.5 1 1 0 0'', ''0.7 2 x 0 0''] 0))"
    by simp
  have h2: "length (py_split (hd (snd (skip_header [''&END'', ''0.5 1 1 0 0'', ''0.7 2 x 0 0''] 0)))) \<noteq> 6"
    by (simp add: py_split_def isspace_def)
  have h3: "dec_int (py_split ''0.7 2 x 0 0'' ! 2) = None"
    by (simp add: py_split_def isspace_def dec_int_def dec_nat_def digit_def)
  have h4: "if length (py_split (hd (snd (skip_header [''&END'', ''0.5 1 1 0 0'', ''0.7 2 x 0 0''] 0)))) \<noteq> 6
         then length (py_split ''0.7 2 x 0 0'') < 5 \<or> dec_float (py_split ''0.7 2 x 0 0'' ! 0) = None \<or> dec_int (py_split ''0.7 2 x 0 0'' ! 1) = None \<or>
              dec_int (py_split ''0.7 2 x 0 0'' ! 2) = None \<or> dec_int (py_split ''0.7 2 x 0 0'' ! 3) = None \<or> dec_int (py_split ''0.7 2 x 0 0'' ! 4) = None
         else length (py_split ''0.7 2 x 0 0'') < 6 \<or> dec_float (py_split ''0.7 2 x 0 0'' ! 0) = None \<or> dec_float (py_split ''0.7 2 x 0 0'' ! 1) = None \<or>
              dec_int (py_split ''0.7 2 x 0 0'' ! 2) = None \<or> dec_int (py_split ''0.7 2 x 0 0'' ! 3) = None \<or> dec_int (py_split ''0.7 2 x 0 0'' ! 4) = None \<or>
              dec_int (py_split ''0.7 2 x 0 0'' ! 5) = None"
    using h2 h3 by simp
  show ?thesis
    using h1 h2 h3 short_or_non_numeric_row_aborts [OF h1 refl h4]
    by blast
qed

section \<open>Properties of the dense expansion\<close>

subsection \<open>The four assignments of a branch\<close>

lemma sym_fill_real:
  "sym_fill arr p q r s (PyReal x) =
     Inr (arr((p, q, r, s) := x, (q, p, s, r) := x, (r, s, p, q) := x, (s, r, q, p) := x))"
  by (simp add: sym_fill_def)

lemma sym_fill_complex: "sym_fill arr p q r s (PyComplex z) = Inl TypeError"
  by (simp add: sym_fill_def)

lemma sym_fill_Inr:
  assumes "sym_fill arr p q r s v = Inr arr'"
  obtains x where "v = PyReal x"
    and "arr' = arr((p, q, r, s) := x, (q, p, s, r) := x, (r, s, p, q) := x, (s, r, q, p) := x)"
  using assms by (cases v) (simp_all add: sym_fill_real sym_fill_complex)

lemma sym_fill_Inl: "sym_fill arr p q r s v = Inl e \<Longrightarrow> e = TypeError"
  by (cases v) (simp_all add: sym_fill_real sym_fill_complex)

lemma symmetric4_zeros: "symmetric4 zeros"
  by (simp add: symmetric4_def zeros_def)

lemma fun_upd4:
  "arr(k1 := x, k2 := x, k3 := x, k4 := x) = (\<lambda>k. if k \<in> {k1, k2, k3, k4} then x else arr k)"
  by (rule ext) simp

lemma orbit_swap_in:
  fixes p q r s :: nat
  shows "(a, b, c, d) \<in> {(p, q, r, s), (q, p, s, r), (r, s, p, q), (s, r, q, p)}
    \<Longrightarrow> (b, a, d, c) \<in> {(p, q, r, s), (q, p, s, r), (r, s, p, q), (s, r, q, p)}"
  by (elim insertE emptyE) simp_all

lemma orbit_swap_pairs:
  fixes p q r s :: nat
  shows "(a, b, c, d) \<in> {(p, q, r, s), (q, p, s, r), (r, s, p, q), (s, r, q, p)}
    \<Longrightarrow> (c, d, a, b) \<in> {(p, q, r, s), (q, p, s, r), (r, s, p, q), (s, r, q, p)}"
  by (elim insertE emptyE) simp_all

lemma symmetric4_fill:
  assumes "symmetric4 arr"
  shows "symmetric4
    (arr((p, q, r, s) := x, (q, p, s, r) := x, (r, s, p, q) := x, (s, r, q, p) := x))"
proof -
  define orbit where "orbit = {(p, q, r, s), (q, p, s, r), (r, s, p, q), (s, r, q, p)}"
  define arr' where "arr' = (\<lambda>k. if k \<in> orbit then x else arr k)"
  have sym: "arr (a, b, c, d) = arr (b, a, d, c)" "arr (a, b, c, d) = arr (c, d, a, b)"
    for a b c d
    using assms unfolding symmetric4_def by blast+
  have "arr' (a, b, c, d) = arr' (b, a, d, c) \<and> arr' (a, b, c, d) = arr' (c, d, a, b)"
    for a b c d
  proof -
    have swap_in: "(b, a, d, c) \<in> orbit \<longleftrightarrow> (a, b, c, d) \<in> orbit"
    proof
      assume "(b, a, d, c) \<in> orbit"
      then show "(a, b, c, d) \<in> orbit" unfolding orbit_def by (rule orbit_swap_in)
    next
      assume "(a, b, c, d) \<in> orbit"
      then show "(b, a, d, c) \<in> orbit" unfolding orbit_def by (rule orbit_swap_in)
    qed
    have swap_pairs: "(c, d, a, b) \<in> orbit \<longleftrightarrow> (a, b, c, d) \<in> orbit"
    proof
      assume "(c, d, a, b) \<in> orbit"
      then show "(a, b, c, d) \<in> orbit" unfolding orbit_def by (rule orbit_swap_pairs)
    next
      assume "(a, b, c, d) \<in> orbit"
      then show "(c, d, a, b) \<in> orbit" unfolding orbit_def by (rule orbit_swap_pairs)
    qed
    show ?thesis
      unfolding arr'_def swap_in swap_pairs using sym [of a b c d] by simp
  qed
  then have "symmetric4 arr'"
    unfolding symmetric4_def by blast
  then show ?thesis
    unfolding arr'_def orbit_def fun_upd4 .
qed

lemma sym_fill_symmetric4:
  assumes "sym_fill arr p q r s v = Inr arr'" and "symmetric4 arr"
  shows "symmetric4 arr'"
  using assms(1)
proof (rule sym_fill_Inr)
  fix x
  assume "arr' = arr((p, q, r, s) := x, (q, p, s, r) := x, (r, s, p, q) := x, (s, r, q, p) := x)"
  then show ?thesis using symmetric4_fill [OF assms(2)] by simp
qed

lemma symmetric4_truncate: "symmetric4 arr \<Longrightarrow> symmetric4 (truncate_small arr)"
  by (simp add: symmetric4_def truncate_small_def)

lemma aa_branch_symmetric:
  assumes "aa_branch tbi p q r s st = Inr st'" and "all_symmetric st"
  shows "all_symmetric st'"
proof (cases "tbi (2 * int p + 1, 2 * int q + 1, 2 * int r + 1, 2 * int s + 1)")
  case None
  then show ?thesis using assms by (simp add: aa_branch_def)
next
  case (Some aa_term)
  from assms(1) Some obtain aa ba ab bb where
    f: "sym_fill (two_body_coefficients_aa st) p q r s aa_term = Inr aa"
       "sym_fill (two_body_coefficients_ba st) p q r s aa_term = Inr ba"
       "sym_fill (two_body_coefficients_ab st) p q r s aa_term = Inr ab"
       "sym_fill (two_body_coefficients_bb st) p q r s aa_term = Inr bb" and
    st': "st' = \<lparr>two_body_coefficients_aa = aa, two_body_coefficients_bb = bb,
                 two_body_coefficients_ab = ab, two_body_coefficients_ba = ba\<rparr>"
    by (auto simp: aa_branch_def ebind_eq_Inr)
  show ?thesis
    using f assms(2) sym_fill_symmetric4 unfolding st' all_symmetric_def by auto
qed

lemma bb_branch_symmetric:
  assumes "bb_branch tbi p q r s st = Inr st'" and "all_symmetric st"
  shows "all_symmetric st'"
  using assms sym_fill_symmetric4
  by (auto simp: bb_branch_def all_symmetric_def ebind_eq_Inr split: option.splits)

lemma ab_branch_symmetric:
  assumes "ab_branch tbi p q r s st = Inr st'" and "all_symmetric st"
  shows "all_symmetric st'"
  using assms sym_fill_symmetric4
  by (auto simp: ab_branch_def all_symmetric_def ebind_eq_Inr split: option.splits)

lemma ba_branch_symmetric:
  assumes "ba_branch tbi p q r s st = Inr st'" and "all_symmetric st"
  shows "all_symmetric st'"
  using assms sym_fill_symmetric4
  by (auto simp: ba_branch_def all_symmetric_def ebind_eq_Inr split: option.splits)

lemma two_body_cell_symmetric:
  assumes "two_body_cell tbi p q r s st = Inr st'" and "all_symmetric st"
  shows "all_symmetric st'"
proof -
  from assms(1) obtain s1 s2 s3 where
    "aa_branch tbi p q r s st = Inr s1" "bb_branch tbi p q r s s1 = Inr s2"
    "ab_branch tbi p q r s s2 = Inr s3" "ba_branch tbi p q r s s3 = Inr st'"
    by (auto simp: two_body_cell_def ebind_eq_Inr)
  then show ?thesis
    using assms(2)
    by (metis aa_branch_symmetric bb_branch_symmetric ab_branch_symmetric ba_branch_symmetric)
qed

text \<open>An invariant of the loop body is an invariant of the four nested loops.\<close>

lemma nested_loops_invariant:
  assumes "for_each (\<lambda>p.
       for_each (\<lambda>q.
         for_each (\<lambda>r.
           for_each (\<lambda>s. body p q r s) ss)
         rs)
       qs)
     ps st = Inr st'"
    and "P st"
    and "\<And>p q r s st st'. p \<in> set ps \<Longrightarrow> q \<in> set qs \<Longrightarrow> r \<in> set rs \<Longrightarrow> s \<in> set ss \<Longrightarrow>
           P st \<Longrightarrow> body p q r s st = Inr st' \<Longrightarrow> P st'"
  shows "P st'"
proof (rule for_each_invariant [where P = P, OF assms(1) assms(2)])
  fix p s0 s0'
  assume p: "p \<in> set ps" and "P s0" and
    l: "for_each (\<lambda>q. for_each (\<lambda>r. for_each (\<lambda>s. body p q r s) ss) rs) qs s0 = Inr s0'"
  show "P s0'"
  proof (rule for_each_invariant [where P = P, OF l \<open>P s0\<close>])
    fix q s1 s1'
    assume q: "q \<in> set qs" and "P s1" and
      l1: "for_each (\<lambda>r. for_each (\<lambda>s. body p q r s) ss) rs s1 = Inr s1'"
    show "P s1'"
    proof (rule for_each_invariant [where P = P, OF l1 \<open>P s1\<close>])
      fix r s2 s2'
      assume r: "r \<in> set rs" and "P s2" and
        l2: "for_each (\<lambda>s. body p q r s) ss s2 = Inr s2'"
      show "P s2'"
        by (rule for_each_invariant [where P = P, OF l2 \<open>P s2\<close>]) (rule assms(3) [OF p q r])
    qed
  qed
qed

lemma two_body_fill_symmetric:
  assumes "two_body_fill nmo tbi = Inr st"
  shows "all_symmetric st"
proof (rule nested_loops_invariant [OF assms [unfolded two_body_fill_def]])
  show "all_symmetric \<lparr>two_body_coefficients_aa = zeros, two_body_coefficients_bb = zeros,
      two_body_coefficients_ab = zeros, two_body_coefficients_ba = zeros\<rparr>"
    by (simp add: all_symmetric_def symmetric4_zeros)
qed (rule two_body_cell_symmetric)

lemma save_wavefunction_Inr:
  assumes "save_wavefunction nmo obi tbi = Inr w"
  obtains ob tb where "one_body_fill nmo obi = Inr ob" and "two_body_fill nmo tbi = Inr tb"
    and "scf_fock_mo_a w = truncate_small (one_body_coefficients_a ob)"
    and "scf_fock_mo_b w = truncate_small (one_body_coefficients_b ob)"
    and "scf_eri_mo_aa w = truncate_small (two_body_coefficients_aa tb)"
    and "scf_eri_mo_bb w = truncate_small (two_body_coefficients_bb tb)"
    and "scf_eri_mo_ba w = truncate_small (two_body_coefficients_ba tb)"
    and "scf_eri_mo_ab w = truncate_small (two_body_coefficients_ab tb)"
proof -
  from assms obtain ob tb where f: "one_body_fill nmo obi = Inr ob" "two_body_fill nmo tbi = Inr tb"
    and w: "w = \<lparr>scf_fock_mo_a = one_body_coefficients_a (one_body_truncate ob),
          scf_fock_mo_b = one_body_coefficients_b (one_body_truncate ob),
          scf_eri_mo_aa = two_body_coefficients_aa (two_body_truncate tb),
          scf_eri_mo_bb = two_body_coefficients_bb (two_body_truncate tb),
          scf_eri_mo_ba = two_body_coefficients_ba (two_body_truncate tb),
          scf_eri_mo_ab = two_body_coefficients_ab (two_body_truncate tb)\<rparr>"
    by (auto simp: save_wavefunction_def ebind_eq_Inr Let_def)
  show ?thesis
    by (rule that [OF f]) (simp_all add: w one_body_truncate_def two_body_truncate_def)
qed

subsection \<open>Evaluation on the sample store\<close>

lemma range_2: "[0 ..< 2] = [0, 1]"
  by (simp add: numeral_2_eq_2)

lemma h2_saves: "\<not> isl (save_wavefunction 2 h2_one_body h2_two_body)"
  by (simp add: save_wavefunction_def one_body_fill_def two_body_fill_def range_2
      one_body_cell_def two_body_cell_def aa_branch_def bb_branch_def ab_branch_def
      ba_branch_def sym_fill_def lookup_def h2_one_body_def h2_two_body_def Let_def)

subsection \<open>Permutational symmetry of the blocks\<close>

text \<open>
  Claim C4. After the two-body expansion and truncation, every block \<open>blk\<close> of
  \<open>aa, bb, ab, ba\<close> satisfies, at every index quadruple,
  \<open>blk[p,q,r,s] = blk[q,p,s,r]\<close> and
  \<open>blk[p,q,r,s] = conj(blk[r,s,p,q]) = conj(blk[s,r,q,p])\<close>. The blocks are arrays of
  reals, so the conjugate is taken of a real number. Each visit of the loops assigns one
  value to the four positions of a quadruple at once, which keeps every block symmetric.
\<close>

theorem two_body_blocks_are_symmetric:
  assumes "save_wavefunction nmo obi tbi = Inr w"
    and "blk \<in> {scf_eri_mo_aa w, scf_eri_mo_bb w, scf_eri_mo_ab w, scf_eri_mo_ba w}"
  shows "blk (p, q, r, s) = blk (q, p, s, r) \<and>
    complex_of_real (blk (p, q, r, s)) = cnj (complex_of_real (blk (r, s, p, q))) \<and>
    complex_of_real (blk (p, q, r, s)) = cnj (complex_of_real (blk (s, r, q, p)))"
proof -
  from assms(1) obtain ob tb where tb: "two_body_fill nmo tbi = Inr tb"
    and w: "scf_eri_mo_aa w = truncate_small (two_body_coefficients_aa tb)"
      "scf_eri_mo_bb w = truncate_small (two_body_coefficients_bb tb)"
      "scf_eri_mo_ba w = truncate_small (two_body_coefficients_ba tb)"
      "scf_eri_mo_ab w = truncate_small (two_body_coefficients_ab tb)"
    by (rule save_wavefunction_Inr)
  have "symmetric4 blk"
    using two_body_fill_symmetric [OF tb] assms(2) w symmetric4_truncate
    by (auto simp: all_symmetric_def)
  then have "blk (p, q, r, s) = blk (q, p, s, r)" "blk (p, q, r, s) = blk (r, s, p, q)"
    "blk (r, s, p, q) = blk (s, r, q, p)"
    unfolding symmetric4_def by blast+
  then show ?thesis by simp
qed

theorem two_body_blocks_are_symmetric_witness:
  "\<not> isl (save_wavefunction 2 h2_one_body h2_two_body) \<and>
   scf_eri_mo_ab (projr (save_wavefunction 2 h2_one_body h2_two_body)) (0, 1, 0, 1) =
   scf_eri_mo_ab (projr (save_wavefunction 2 h2_one_body h2_two_body)) (1, 0, 1, 0) \<and>
   complex_of_real (scf_eri_mo_ab (projr (save_wavefunction 2 h2_one_body h2_two_body)) (0, 1, 0, 1)) =
   cnj (complex_of_real (scf_eri_mo_ab (projr (save_wavefunction 2 h2_one_body h2_two_body)) (0, 1, 0, 1))) \<and>
   complex_of_real (scf_eri_mo_ab (projr (save_wavefunction 2 h2_one_body h2_two_body)) (0, 1, 0, 1)) =
   cnj (complex_of_real (scf_eri_mo_ab (projr (save_wavefunction 2 h2_one_body h2_two_body)) (1, 0, 1, 0)))"
proof -
  have ok: "\<not> isl (save_wavefunction 2 h2_one_body h2_two_body)"
    by (rule h2_saves)
  then have h: "save_wavefunction 2 h2_one_body h2_two_body =
      Inr (projr (save_wavefunction 2 h2_one_body h2_two_body))"
    by simp
  show ?thesis
    using ok two_body_blocks_are_symmetric [OF h, of
        "scf_eri_mo_ab (projr (save_wavefunction 2 h2_one_body h2_two_body))" 0 1 0 1]
    by simp
qed

subsection \<open>The restricted case\<close>

lemma aa_branch_blocks_equal:
  assumes "aa_branch tbi p q r s st = Inr st'" and "blocks_equal st"
  shows "blocks_equal st'"
proof (cases "tbi (2 * int p + 1, 2 * int q + 1, 2 * int r + 1, 2 * int s + 1)")
  case None
  then show ?thesis using assms by (simp add: aa_branch_def)
next
  case (Some aa_term)
  from assms(1) Some obtain aa ba ab bb where
    f: "sym_fill (two_body_coefficients_aa st) p q r s aa_term = Inr aa"
       "sym_fill (two_body_coefficients_ba st) p q r s aa_term = Inr ba"
       "sym_fill (two_body_coefficients_ab st) p q r s aa_term = Inr ab"
       "sym_fill (two_body_coefficients_bb st) p q r s aa_term = Inr bb" and
    st': "st' = \<lparr>two_body_coefficients_aa = aa, two_body_coefficients_bb = bb,
                 two_body_coefficients_ab = ab, two_body_coefficients_ba = ba\<rparr>"
    by (auto simp: aa_branch_def ebind_eq_Inr)
  have "bb = aa" "ab = aa" "ba = aa"
    using f assms(2) by (simp_all add: blocks_equal_def)
  then show ?thesis by (simp add: st' blocks_equal_def)
qed

lemma two_body_cell_blocks_equal:
  assumes "two_body_cell tbi p q r s st = Inr st'" and "blocks_equal st"
    and "tbi (2 * int p + 2, 2 * int q + 2, 2 * int r + 2, 2 * int s + 2) = None"
    and "tbi (2 * int p + 1, 2 * int q + 2, 2 * int r + 2, 2 * int s + 1) = None"
    and "tbi (2 * int p + 2, 2 * int q + 1, 2 * int r + 1, 2 * int s + 2) = None"
  shows "blocks_equal st'"
proof -
  have "aa_branch tbi p q r s st = Inr st'"
    using assms(1,3,4,5)
    by (auto simp: two_body_cell_def ebind_eq_Inr bb_branch_def ab_branch_def ba_branch_def)
  then show ?thesis using assms(2) by (rule aa_branch_blocks_equal)
qed

lemma two_body_fill_blocks_equal:
  assumes "two_body_fill nmo tbi = Inr st"
    and "\<forall>p q r s :: nat.
      tbi (2 * int p + 2, 2 * int q + 2, 2 * int r + 2, 2 * int s + 2) = None \<and>
      tbi (2 * int p + 1, 2 * int q + 2, 2 * int r + 2, 2 * int s + 1) = None \<and>
      tbi (2 * int p + 2, 2 * int q + 1, 2 * int r + 1, 2 * int s + 2) = None"
  shows "blocks_equal st"
proof (rule nested_loops_invariant [OF assms(1) [unfolded two_body_fill_def]])
  show "blocks_equal \<lparr>two_body_coefficients_aa = zeros, two_body_coefficients_bb = zeros,
      two_body_coefficients_ab = zeros, two_body_coefficients_ba = zeros\<rparr>"
    by (simp add: blocks_equal_def)
next
  fix p q r s :: nat and st st'
  assume "blocks_equal st" "two_body_cell tbi p q r s st = Inr st'"
  then show "blocks_equal st'"
    using assms(2) two_body_cell_blocks_equal by blast
qed

text \<open>
  Claim C5. When the two-body dictionary has no entry under a beta-beta, alpha-beta or
  beta-alpha doubled key (whatever it has under alpha-alpha keys), the four blocks
  \<open>aa, bb, ab, ba\<close> that the expansion returns are equal, element by element.
\<close>

theorem restricted_store_gives_identical_blocks:
  assumes "\<forall>p q r s :: nat.
      two_body_integrals (2 * int p + 2, 2 * int q + 2, 2 * int r + 2, 2 * int s + 2) = None \<and>
      two_body_integrals (2 * int p + 1, 2 * int q + 2, 2 * int r + 2, 2 * int s + 1) = None \<and>
      two_body_integrals (2 * int p + 2, 2 * int q + 1, 2 * int r + 1, 2 * int s + 2) = None"
    and "save_wavefunction nmo one_body_integrals two_body_integrals = Inr w"
  shows "scf_eri_mo_bb w = scf_eri_mo_aa w \<and> scf_eri_mo_ab w = scf_eri_mo_aa w \<and>
    scf_eri_mo_ba w = scf_eri_mo_aa w"
proof -
  from assms(2) obtain ob tb where tb: "two_body_fill nmo two_body_integrals = Inr tb"
    and w: "scf_eri_mo_aa w = truncate_small (two_body_coefficients_aa tb)"
      "scf_eri_mo_bb w = truncate_small (two_body_coefficients_bb tb)"
      "scf_eri_mo_ba w = truncate_small (two_body_coefficients_ba tb)"
      "scf_eri_mo_ab w = truncate_small (two_body_coefficients_ab tb)"
    by (rule save_wavefunction_Inr)
  show ?thesis
    using two_body_fill_blocks_equal [OF tb assms(1)] by (simp add: w blocks_equal_def)
qed

lemma h2_restricted:
  "\<forall>p q r s :: nat.
      h2_two_body (2 * int p + 2, 2 * int q + 2, 2 * int r + 2, 2 * int s + 2) = None \<and>
      h2_two_body (2 * int p + 1, 2 * int q + 2, 2 * int r + 2, 2 * int s + 1) = None \<and>
      h2_two_body (2 * int p + 2, 2 * int q + 1, 2 * int r + 1, 2 * int s + 2) = None"
proof -
  have even: "2 * int p + 2 \<noteq> 1" "2 * int p + 2 \<noteq> 3" for p
    by presburger+
  show ?thesis
    by (simp add: h2_two_body_def even)
qed

theorem restricted_store_gives_identical_blocks_witness:
  "\<not> isl (save_wavefunction 2 h2_one_body h2_two_body) \<and>
   scf_eri_mo_bb (projr (save_wavefunction 2 h2_one_body h2_two_body)) =
   scf_eri_mo_aa (projr (save_wavefunction 2 h2_one_body h2_two_body)) \<and>
   scf_eri_mo_ab (projr (save_wavefunction 2 h2_one_body h2_two_body)) =
   scf_eri_mo_aa (projr (save_wavefunction 2 h2_one_body h2_two_body)) \<and>
   scf_eri_mo_ba (projr (save_wavefunction 2 h2_one_body h2_two_body)) =
   scf_eri_mo_aa (projr (save_wavefunction 2 h2_one_body h2_two_body)) \<and>
   h2_two_body (1, 3, 1, 3) = Some (PyReal (1 / 5))"
proof -
  have ok: "\<not> isl (save_wavefunction 2 h2_one_body h2_two_body)"
    by (rule h2_saves)
  then have h: "save_wavefunction 2 h2_one_body h2_two_body =
      Inr (projr (save_wavefunction 2 h2_one_body h2_two_body))"
    by simp
  show ?thesis
    using ok restricted_store_gives_identical_blocks [OF h2_restricted h]
    by (simp add: h2_two_body_def)
qed

subsection \<open>Truncation\<close>

lemma EQ_TOLERANCE_pos: "0 < EQ_TOLERANCE"
  by (simp add: EQ_TOLERANCE_def)

lemma truncate_small_idem: "truncate_small (truncate_small arr) = truncate_small arr"
  using EQ_TOLERANCE_pos by (auto simp: truncate_small_def fun_eq_iff)

text \<open>
  Claim C6. Each of the six arrays returned is the truncation of the array the loops
  filled: an element of magnitude strictly below \<open>EQ_TOLERANCE = 1e-8\<close> is replaced by
  exactly 0, any other element is kept. Truncation is idempotent: truncating a truncated
  array, and in particular any of the six outputs, changes nothing.
\<close>

theorem outputs_are_truncated:
  assumes "save_wavefunction nmo one_body_integrals two_body_integrals = Inr w"
  shows "(\<exists>ob tb. one_body_fill nmo one_body_integrals = Inr ob \<and>
            two_body_fill nmo two_body_integrals = Inr tb \<and>
            scf_fock_mo_a w = truncate_small (one_body_coefficients_a ob) \<and>
            scf_fock_mo_b w = truncate_small (one_body_coefficients_b ob) \<and>
            scf_eri_mo_aa w = truncate_small (two_body_coefficients_aa tb) \<and>
            scf_eri_mo_bb w = truncate_small (two_body_coefficients_bb tb) \<and>
            scf_eri_mo_ba w = truncate_small (two_body_coefficients_ba tb) \<and>
            scf_eri_mo_ab w = truncate_small (two_body_coefficients_ab tb)) \<and>
    (\<bar>arr i\<bar> < EQ_TOLERANCE \<longrightarrow> truncate_small arr i = 0) \<and>
    (EQ_TOLERANCE \<le> \<bar>arr i\<bar> \<longrightarrow> truncate_small arr i = arr i) \<and>
    truncate_small (truncate_small arr) = truncate_small arr \<and>
    truncate_small (scf_fock_mo_a w) = scf_fock_mo_a w \<and>
    truncate_small (scf_fock_mo_b w) = scf_fock_mo_b w \<and>
    truncate_small (scf_eri_mo_aa w) = scf_eri_mo_aa w \<and>
    truncate_small (scf_eri_mo_bb w) = scf_eri_mo_bb w \<and>
    truncate_small (scf_eri_mo_ba w) = scf_eri_mo_ba w \<and>
    truncate_small (scf_eri_mo_ab w) = scf_eri_mo_ab w"
proof -
  from assms obtain ob tb where f: "one_body_fill nmo one_body_integrals = Inr ob"
      "two_body_fill nmo two_body_integrals = Inr tb"
    and w: "scf_fock_mo_a w = truncate_small (one_body_coefficients_a ob)"
      "scf_fock_mo_b w = truncate_small (one_body_coefficients_b ob)"
      "scf_eri_mo_aa w = truncate_small (two_body_coefficients_aa tb)"
      "scf_eri_mo_bb w = truncate_small (two_body_coefficients_bb tb)"
      "scf_eri_mo_ba w = truncate_small (two_body_coefficients_ba tb)"
      "scf_eri_mo_ab w = truncate_small (two_body_coefficients_ab tb)"
    by (rule save_wavefunction_Inr)
  have first: "\<exists>ob tb. one_body_fill nmo one_body_integrals = Inr ob \<and>
            two_body_fill nmo two_body_integrals = Inr tb \<and>
            scf_fock_mo_a w = truncate_small (one_body_coefficients_a ob) \<and>
            scf_fock_mo_b w = truncate_small (one_body_coefficients_b ob) \<and>
            scf_eri_mo_aa w = truncate_small (two_body_coefficients_aa tb) \<and>
            scf_eri_mo_bb w = truncate_small (two_body_coefficients_bb tb) \<and>
            scf_eri_mo_ba w = truncate_small (two_body_coefficients_ba tb) \<and>
            scf_eri_mo_ab w = truncate_small (two_body_coefficients_ab tb)"
    using f w by blast
  have cell: "(\<bar>arr i\<bar> < EQ_TOLERANCE \<longrightarrow> truncate_small arr i = 0) \<and>
    (EQ_TOLERANCE \<le> \<bar>arr i\<bar> \<longrightarrow> truncate_small arr i = arr i)"
    by (simp add: truncate_small_def)
  show ?thesis
    using first cell by (simp add: w truncate_small_idem)
qed

theorem outputs_are_truncated_witness:
  "\<not> isl (save_wavefunction 2 h2_one_body h2_two_body) \<and>
   h2_one_body (1, 3) = Some (PyReal (1 / 10 ^ 9)) \<and>
   scf_fock_mo_a (projr (save_wavefunction 2 h2_one_body h2_two_body)) (0, 1) = 0 \<and>
   truncate_small (scf_fock_mo_a (projr (save_wavefunction 2 h2_one_body h2_two_body))) =
     scf_fock_mo_a (projr (save_wavefunction 2 h2_one_body h2_two_body)) \<and>
   truncate_small (scf_eri_mo_ab (projr (save_wavefunction 2 h2_one_body h2_two_body))) =
     scf_eri_mo_ab (projr (save_wavefunction 2 h2_one_body h2_two_body))"
proof -
  have ok: "\<not> isl (save_wavefunction 2 h2_one_body h2_two_body)"
    by (rule h2_saves)
  then have h: "save_wavefunction 2 h2_one_body h2_two_body =
      Inr (projr (save_wavefunction 2 h2_one_body h2_two_body))"
    by simp
  have fill: "one_body_fill 2 h2_one_body =
      Inr \<lparr>one_body_coefficients_a =
             zeros((0, 0) := - 5 / 4, (0, 1) := 1 / 10 ^ 9, (1, 0) := 1 / 10 ^ 9,
                   (1, 1) := - 1 / 2),
           one_body_coefficients_b =
             zeros((0, 0) := - 5 / 4, (0, 1) := 0, (1, 0) := 0, (1, 1) := - 1 / 2)\<rparr>"
    by (simp add: one_body_fill_def range_2 one_body_cell_def lookup_def h2_one_body_def Let_def)
  note inst = outputs_are_truncated [where arr = "zeros :: nat \<times> nat \<Rightarrow> real" and i = "(0, 1)", OF h]
  from inst [THEN conjunct1] obtain ob where
    "one_body_fill 2 h2_one_body = Inr ob" and
    "scf_fock_mo_a (projr (save_wavefunction 2 h2_one_body h2_two_body)) =
       truncate_small (one_body_coefficients_a ob)"
    by blast
  then have cell: "scf_fock_mo_a (projr (save_wavefunction 2 h2_one_body h2_two_body)) (0, 1) = 0"
    using fill by (auto simp: truncate_small_def EQ_TOLERANCE_def)
  show ?thesis
    using ok cell inst
    by (simp add: h2_one_body_def)
qed

subsection \<open>Entries beyond the requested number of orbitals\<close>

lemma spin_orbitals_mem:
  "p < nmo \<Longrightarrow> 2 * int p + 1 \<in> spin_orbitals nmo \<and> 2 * int p + 2 \<in> spin_orbitals nmo"
  by (auto simp: spin_orbitals_def)

lemma one_body_cell_restrict:
  assumes "p < nmo" and "q < nmo"
  shows "one_body_cell (obi |` (spin_orbitals nmo \<times> spin_orbitals nmo)) p q st =
    one_body_cell obi p q st"
  using spin_orbitals_mem [OF assms(1)] spin_orbitals_mem [OF assms(2)]
  by (simp add: one_body_cell_def lookup_def)

lemma two_body_cell_restrict:
  assumes "p < nmo" and "q < nmo" and "r < nmo" and "s < nmo"
  shows "two_body_cell
      (tbi |` (spin_orbitals nmo \<times> spin_orbitals nmo \<times> spin_orbitals nmo \<times> spin_orbitals nmo))
      p q r s st =
    two_body_cell tbi p q r s st"
  using spin_orbitals_mem [OF assms(1)] spin_orbitals_mem [OF assms(2)]
    spin_orbitals_mem [OF assms(3)] spin_orbitals_mem [OF assms(4)]
  by (simp add: two_body_cell_def aa_branch_def bb_branch_def ab_branch_def ba_branch_def)

lemma one_body_fill_restrict:
  "one_body_fill nmo (obi |` (spin_orbitals nmo \<times> spin_orbitals nmo)) = one_body_fill nmo obi"
  unfolding one_body_fill_def
  by (intro for_each_cong) (simp add: one_body_cell_restrict)

lemma two_body_fill_restrict:
  "two_body_fill nmo
      (tbi |` (spin_orbitals nmo \<times> spin_orbitals nmo \<times> spin_orbitals nmo \<times> spin_orbitals nmo)) =
    two_body_fill nmo tbi"
  unfolding two_body_fill_def
  by (intro for_each_cong) (simp add: two_body_cell_restrict)

text \<open>
  Claim C3, as stated, fails: the expansion never compares \<open>nmo\<close> with the indices in the
  store. With \<open>nmo = 1\<close> and a store that has entries at the spin-orbital indices 3 and 4,
  it returns arrays, built from the entries with indices 1 and 2 alone.
\<close>

theorem too_few_orbitals_counterexample:
  "h2_one_body (3, 3) = Some (PyReal (- 1 / 2)) \<and>
   h2_two_body (3, 3, 3, 3) = Some (PyReal (7 / 10)) \<and> 2 * int 1 < 3 \<and>
   \<not> isl (save_wavefunction 1 h2_one_body h2_two_body) \<and>
   scf_eri_mo_aa (projr (save_wavefunction 1 h2_one_body h2_two_body)) (0, 0, 0, 0) = 27 / 40"
  by (simp add: save_wavefunction_def one_body_fill_def two_body_fill_def
      one_body_cell_def two_body_cell_def aa_branch_def bb_branch_def ab_branch_def
      ba_branch_def sym_fill_def lookup_def h2_one_body_def h2_two_body_def Let_def
      one_body_truncate_def two_body_truncate_def truncate_small_def EQ_TOLERANCE_def)

text \<open>
  Claim C3, amended. The expansion makes no dimension check. Entries of the store with a
  spin-orbital index outside \<open>1, \<dots>, 2 * nmo\<close> are never looked up: the result, arrays or
  exception, is the same as for the store without them.
\<close>

theorem out_of_range_entries_are_ignored:
  "save_wavefunction nmo
     (one_body_integrals |` (spin_orbitals nmo \<times> spin_orbitals nmo))
     (two_body_integrals |`
        (spin_orbitals nmo \<times> spin_orbitals nmo \<times> spin_orbitals nmo \<times> spin_orbitals nmo)) =
   save_wavefunction nmo one_body_integrals two_body_integrals"
  by (simp add: save_wavefunction_def one_body_fill_restrict two_body_fill_restrict)

subsection \<open>Stores on which the expansion returns\<close>

text \<open>
  The expansion returns arrays whenever the one-body dictionary has a real value under
  every key the loops look up and no two-body value is a \<^verbatim>\<open>complex\<close>: the theorems that
  speak of a returned result are about all those stores.
\<close>

lemma one_body_fill_returns:
  assumes "\<forall>p < nmo. \<forall>q < nmo. \<exists>x y.
      obi (2 * int p + 1, 2 * int q + 1) = Some (PyReal x) \<and>
      obi (2 * int p + 2, 2 * int q + 2) = Some (PyReal y)"
  shows "\<exists>ob. one_body_fill nmo obi = Inr ob"
proof -
  have cell: "\<exists>st'. one_body_cell obi p q st = Inr st' \<and> True"
    if "p \<in> set [0 ..< nmo]" and "q \<in> set [0 ..< nmo]" for p q st
  proof -
    from assms that obtain x y where
      "obi (2 * int p + 1, 2 * int q + 1) = Some (PyReal x)"
      "obi (2 * int p + 2, 2 * int q + 2) = Some (PyReal y)"
      by (metis atLeast0LessThan lessThan_iff set_upt)
    then show ?thesis by (simp add: one_body_cell_def lookup_def)
  qed
  have row: "\<exists>st'. for_each (\<lambda>q. one_body_cell obi p q) [0 ..< nmo] st = Inr st' \<and> True"
    if "p \<in> set [0 ..< nmo]" for p st
    by (rule for_each_total [where P = "\<lambda>_. True"]) (use cell that in blast)+
  have "\<exists>st'. one_body_fill nmo obi = Inr st' \<and> True"
    unfolding one_body_fill_def
    by (rule for_each_total [where P = "\<lambda>_. True"]) (use row in blast)+
  then show ?thesis by simp
qed

lemma two_body_cell_returns:
  assumes "\<forall>k z. tbi k \<noteq> Some (PyComplex z)"
  shows "\<exists>st'. two_body_cell tbi p q r s st = Inr st'"
proof -
  have val: "\<exists>x. v = PyReal x" if "tbi k = Some v" for k v
    using assms that by (cases v) blast+
  have aa: "\<exists>st'. aa_branch tbi p q r s st0 = Inr st'" for st0
    using val by (fastforce simp: aa_branch_def sym_fill_real split: option.splits)
  have bb: "\<exists>st'. bb_branch tbi p q r s st0 = Inr st'" for st0
    using val by (fastforce simp: bb_branch_def sym_fill_real split: option.splits)
  have ab: "\<exists>st'. ab_branch tbi p q r s st0 = Inr st'" for st0
    using val by (fastforce simp: ab_branch_def sym_fill_real split: option.splits)
  have ba: "\<exists>st'. ba_branch tbi p q r s st0 = Inr st'" for st0
    using val by (fastforce simp: ba_branch_def sym_fill_real split: option.splits)
  obtain s1 where s1: "aa_branch tbi p q r s st = Inr s1" using aa by blast
  obtain s2 where s2: "bb_branch tbi p q r s s1 = Inr s2" using bb by blast
  obtain s3 where s3: "ab_branch tbi p q r s s2 = Inr s3" using ab by blast
  obtain s4 where s4: "ba_branch tbi p q r s s3 = Inr s4" using ba by blast
  show ?thesis by (simp add: two_body_cell_def s1 s2 s3 s4)
qed

lemma two_body_fill_returns:
  assumes "\<forall>k z. tbi k \<noteq> Some (PyComplex z)"
  shows "\<exists>tb. two_body_fill nmo tbi = Inr tb"
proof -
  have l4: "\<exists>st'. for_each (\<lambda>s. two_body_cell tbi p q r s) [0 ..< nmo] st = Inr st' \<and> True"
    for p q r st
    by (rule for_each_total [where P = "\<lambda>_. True"])
      (use two_body_cell_returns [OF assms] in blast)+
  have l3: "\<exists>st'. for_each (\<lambda>r. for_each (\<lambda>s. two_body_cell tbi p q r s) [0 ..< nmo])
      [0 ..< nmo] st = Inr st' \<and> True" for p q st
    by (rule for_each_total [where P = "\<lambda>_. True"]) (use l4 in blast)+
  have l2: "\<exists>st'. for_each (\<lambda>q. for_each (\<lambda>r. for_each (\<lambda>s. two_body_cell tbi p q r s)
      [0 ..< nmo]) [0 ..< nmo]) [0 ..< nmo] st = Inr st' \<and> True" for p st
    by (rule for_each_total [where P = "\<lambda>_. True"]) (use l3 in blast)+
  have "\<exists>st'. two_body_fill nmo tbi = Inr st' \<and> True"
    unfolding two_body_fill_def
    by (rule for_each_total [where P = "\<lambda>_. True"]) (use l2 in blast)+
  then show ?thesis by simp
qed

lemma save_wavefunction_returns:
  assumes "\<forall>p < nmo. \<forall>q < nmo. \<exists>x y.
      obi (2 * int p + 1, 2 * int q + 1) = Some (PyReal x) \<and>
      obi (2 * int p + 2, 2 * int q + 2) = Some (PyReal y)"
    and "\<forall>k z. tbi k \<noteq> Some (PyComplex z)"
  shows "\<exists>w. save_wavefunction nmo obi tbi = Inr w"
proof -
  from one_body_fill_returns [OF assms(1)] obtain ob where "one_body_fill nmo obi = Inr ob" ..
  moreover from two_body_fill_returns [OF assms(2)] obtain tb where
    "two_body_fill nmo tbi = Inr tb" ..
  ultimately show ?thesis by (simp add: save_wavefunction_def Let_def)
qed

subsection \<open>The one-body matrices\<close>

lemma lookup_Inr: "lookup d k = Inr v \<longleftrightarrow> d k = Some v"
  by (simp add: lookup_def split: option.splits)

lemma setitem_Inr: "setitem v = Inr x \<longleftrightarrow> v = PyReal x"
  by (cases v) simp_all

lemma one_body_cell_Inr:
  assumes "one_body_cell obi p q st = Inr st'"
  shows "\<exists>x y. obi (2 * int p + 1, 2 * int q + 1) = Some (PyReal x) \<and>
    obi (2 * int p + 2, 2 * int q + 2) = Some (PyReal y) \<and>
    st' = \<lparr>one_body_coefficients_a = (one_body_coefficients_a st)((p, q) := x),
           one_body_coefficients_b = (one_body_coefficients_b st)((p, q) := y)\<rparr>"
proof -
  from assms obtain va xa vb xb where
    "lookup obi (2 * int p + 1, 2 * int q + 1) = Inr va" "setitem va = Inr xa"
    "lookup obi (2 * int p + 2, 2 * int q + 2) = Inr vb" "setitem vb = Inr xb"
    "st' = st\<lparr>one_body_coefficients_a := (one_body_coefficients_a st)((p, q) := xa),
              one_body_coefficients_b := (one_body_coefficients_b st)((p, q) := xb)\<rparr>"
    unfolding one_body_cell_def Let_def ebind_eq_Inr by auto
  then show ?thesis
    by (simp add: lookup_Inr setitem_Inr)
qed

lemma one_body_fill_cell:
  assumes "one_body_fill nmo obi = Inr ob" and "p < nmo" and "q < nmo"
  shows "\<exists>x y. obi (2 * int p + 1, 2 * int q + 1) = Some (PyReal x) \<and>
    obi (2 * int p + 2, 2 * int q + 2) = Some (PyReal y) \<and>
    one_body_coefficients_a ob (p, q) = x \<and> one_body_coefficients_b ob (p, q) = y"
proof -
  define Q where "Q st \<longleftrightarrow>
    (\<exists>x y. obi (2 * int p + 1, 2 * int q + 1) = Some (PyReal x) \<and>
      obi (2 * int p + 2, 2 * int q + 2) = Some (PyReal y) \<and>
      one_body_coefficients_a st (p, q) = x \<and> one_body_coefficients_b st (p, q) = y)"
    for st :: one_body
  have here: "Q st'" if "one_body_cell obi p q st = Inr st'" for st st'
    using one_body_cell_Inr [OF that] unfolding Q_def by auto
  have keep: "Q st'" if "one_body_cell obi p' q' st = Inr st'" and "Q st" for p' q' st st'
  proof (cases "(p', q') = (p, q)")
    case True
    then show ?thesis using here that(1) by simp
  next
    case False
    then show ?thesis
      using one_body_cell_Inr [OF that(1)] that(2) unfolding Q_def by auto
  qed
  have row_keep: "Q st'"
    if "for_each (\<lambda>q'. one_body_cell obi p' q') [0 ..< nmo] st = Inr st'" and "Q st"
    for p' st st'
    using that(1,2) keep by (rule for_each_invariant [where P = Q])
  have row_here: "Q st'"
    if "for_each (\<lambda>q'. one_body_cell obi p q') [0 ..< nmo] st = Inr st'" for st st'
  proof (rule for_each_establish [where Q = Q and x = q, OF that])
    show "q \<in> set [0 ..< nmo]" using assms(3) by simp
  qed (use here keep in blast)+
  have "Q ob"
  proof (rule for_each_establish [where Q = Q and x = p, OF assms(1) [unfolded one_body_fill_def]])
    show "p \<in> set [0 ..< nmo]" using assms(2) by simp
  qed (use row_here row_keep in blast)+
  then show ?thesis unfolding Q_def .
qed

lemma one_body_cell_error_real:
  assumes "\<forall>k z. obi k \<noteq> Some (PyComplex z)" and "one_body_cell obi p q st = Inl e"
  shows "e = KeyError"
proof -
  have val: "\<exists>x. v = PyReal x" if "obi k = Some v" for k v
    using assms(1) that by (cases v) blast+
  show ?thesis
  proof (cases "obi (2 * int p + 1, 2 * int q + 1)")
    case None
    then show ?thesis using assms(2) by (simp add: one_body_cell_def lookup_def)
  next
    case a: (Some va)
    then obtain xa where va: "va = PyReal xa" using val by blast
    show ?thesis
    proof (cases "obi (2 * int p + 2, 2 * int q + 2)")
      case None
      then show ?thesis using assms(2) a va by (simp add: one_body_cell_def lookup_def)
    next
      case (Some vb)
      then obtain xb where "vb = PyReal xb" using val by blast
      then show ?thesis using assms(2) a va Some by (simp add: one_body_cell_def lookup_def)
    qed
  qed
qed

lemma one_body_fill_error_real:
  assumes "\<forall>k z. obi k \<noteq> Some (PyComplex z)" and "one_body_fill nmo obi = Inl e"
  shows "e = KeyError"
  using assms(2) unfolding one_body_fill_def
  by (elim for_each_error) (rule one_body_cell_error_real [OF assms(1)])

lemma one_body_fill_missing_key:
  assumes "\<forall>k z. obi k \<noteq> Some (PyComplex z)" and "p < nmo" and "q < nmo"
    and "obi (2 * int p + 1, 2 * int q + 1) = None \<or> obi (2 * int p + 2, 2 * int q + 2) = None"
  shows "one_body_fill nmo obi = Inl KeyError"
proof (cases "one_body_fill nmo obi")
  case (Inl e)
  then show ?thesis using one_body_fill_error_real [OF assms(1)] by simp
next
  case (Inr ob)
  from one_body_fill_cell [OF Inr assms(2,3)] assms(4) show ?thesis by auto
qed

text \<open>
  Claim C1, as stated, fails: \<^verbatim>\<open>one_body_integrals[(beta_p, beta_q)]\<close> is a plain dictionary
  access. For the store whose only one-body entry is \<open>(1, 1)\<close> and one spatial orbital, the
  entry \<open>(2, 2)\<close> is missing and the expansion raises \<^verbatim>\<open>KeyError\<close>; no matrix with
  \<open>beta_one[0,0] = 0\<close> is produced.
\<close>

theorem missing_one_body_key_counterexample:
  "save_wavefunction 1 (map_of [((1, 1), PyReal (- 5 / 4))]) (map_of []) = Inl KeyError"
  by (simp add: save_wavefunction_def one_body_fill_def one_body_cell_def lookup_def Let_def)

text \<open>
  Claim C1, amended. For a one-body dictionary whose values are real numbers and every
  spatial pair \<open>(p, q)\<close> with \<open>p, q < nmo\<close>: if the key \<open>(2p+1, 2q+1)\<close> or the key
  \<open>(2p+2, 2q+2)\<close> is absent, the one-body loops, and with them the expansion, raise
  \<^verbatim>\<open>KeyError\<close>; the dense entry is not left at zero. If every key the loops look up is
  present, the loops return, and whenever they return \<open>one_body_coefficients_a[p, q]\<close> is
  the value under \<open>(2p+1, 2q+1)\<close> and \<open>one_body_coefficients_b[p, q]\<close> the value under
  \<open>(2p+2, 2q+2)\<close>; in the matrices the expansion returns, each is replaced by 0 when its
  magnitude is below the tolerance.
\<close>

theorem one_body_expansion:
  assumes "\<forall>k z. one_body_integrals k \<noteq> Some (PyComplex z)" and "p < nmo" and "q < nmo"
  shows
    "(one_body_integrals (2 * int p + 1, 2 * int q + 1) = None \<or>
      one_body_integrals (2 * int p + 2, 2 * int q + 2) = None
      \<longrightarrow> one_body_fill nmo one_body_integrals = Inl KeyError \<and>
          save_wavefunction nmo one_body_integrals two_body_integrals = Inl KeyError) \<and>
     ((\<forall>p' < nmo. \<forall>q' < nmo.
         one_body_integrals (2 * int p' + 1, 2 * int q' + 1) \<noteq> None \<and>
         one_body_integrals (2 * int p' + 2, 2 * int q' + 2) \<noteq> None)
      \<longrightarrow> (\<exists>ob. one_body_fill nmo one_body_integrals = Inr ob)) \<and>
     (\<forall>ob. one_body_fill nmo one_body_integrals = Inr ob \<longrightarrow>
        one_body_integrals (2 * int p + 1, 2 * int q + 1)
          = Some (PyReal (one_body_coefficients_a ob (p, q))) \<and>
        one_body_integrals (2 * int p + 2, 2 * int q + 2)
          = Some (PyReal (one_body_coefficients_b ob (p, q)))) \<and>
     (\<forall>w. save_wavefunction nmo one_body_integrals two_body_integrals = Inr w \<longrightarrow>
       (\<exists>x y. one_body_integrals (2 * int p + 1, 2 * int q + 1) = Some (PyReal x) \<and>
          one_body_integrals (2 * int p + 2, 2 * int q + 2) = Some (PyReal y) \<and>
          scf_fock_mo_a w (p, q) = (if \<bar>x\<bar> < EQ_TOLERANCE then 0 else x) \<and>
          scf_fock_mo_b w (p, q) = (if \<bar>y\<bar> < EQ_TOLERANCE then 0 else y)))"
proof (intro conjI impI allI)
  assume missing: "one_body_integrals (2 * int p + 1, 2 * int q + 1) = None \<or>
      one_body_integrals (2 * int p + 2, 2 * int q + 2) = None"
  show fill: "one_body_fill nmo one_body_integrals = Inl KeyError"
    using assms missing by (rule one_body_fill_missing_key)
  show "save_wavefunction nmo one_body_integrals two_body_integrals = Inl KeyError"
    by (simp add: save_wavefunction_def fill)
next
  assume present: "\<forall>p' < nmo. \<forall>q' < nmo.
         one_body_integrals (2 * int p' + 1, 2 * int q' + 1) \<noteq> None \<and>
         one_body_integrals (2 * int p' + 2, 2 * int q' + 2) \<noteq> None"
  have val: "\<exists>x. v = PyReal x" if "one_body_integrals k = Some v" for k v
    using assms(1) that by (cases v) blast+
  have "\<forall>p' < nmo. \<forall>q' < nmo. \<exists>x y.
      one_body_integrals (2 * int p' + 1, 2 * int q' + 1) = Some (PyReal x) \<and>
      one_body_integrals (2 * int p' + 2, 2 * int q' + 2) = Some (PyReal y)"
    using present val by (metis not_Some_eq)
  then show "\<exists>ob. one_body_fill nmo one_body_integrals = Inr ob"
    by (rule one_body_fill_returns)
next
  fix ob
  assume ob: "one_body_fill nmo one_body_integrals = Inr ob"
  from one_body_fill_cell [OF ob assms(2,3)]
  show "one_body_integrals (2 * int p + 1, 2 * int q + 1)
          = Some (PyReal (one_body_coefficients_a ob (p, q)))"
    and "one_body_integrals (2 * int p + 2, 2 * int q + 2)
          = Some (PyReal (one_body_coefficients_b ob (p, q)))"
    by auto
next
  fix w
  assume w: "save_wavefunction nmo one_body_integrals two_body_integrals = Inr w"
  from w obtain ob tb where ob: "one_body_fill nmo one_body_integrals = Inr ob"
    and wf: "scf_fock_mo_a w = truncate_small (one_body_coefficients_a ob)"
      "scf_fock_mo_b w = truncate_small (one_body_coefficients_b ob)"
    by (rule save_wavefunction_Inr)
  from one_body_fill_cell [OF ob assms(2,3)]
  show "\<exists>x y. one_body_integrals (2 * int p + 1, 2 * int q + 1) = Some (PyReal x) \<and>
          one_body_integrals (2 * int p + 2, 2 * int q + 2) = Some (PyReal y) \<and>
          scf_fock_mo_a w (p, q) = (if \<bar>x\<bar> < EQ_TOLERANCE then 0 else x) \<and>
          scf_fock_mo_b w (p, q) = (if \<bar>y\<bar> < EQ_TOLERANCE then 0 else y)"
    by (auto simp: wf truncate_small_def)
qed

lemma h2_one_body_real: "\<forall>k z. h2_one_body k \<noteq> Some (PyComplex z)"
  by (auto simp: h2_one_body_def split: if_splits)

theorem one_body_expansion_witness:
  "\<not> isl (save_wavefunction 2 h2_one_body h2_two_body) \<and>
   h2_one_body (1, 3) = Some (PyReal (1 / 10 ^ 9)) \<and> h2_one_body (2, 4) = Some (PyReal 0) \<and>
   h2_one_body (3, 3) = Some (PyReal (- 1 / 2)) \<and>
   scf_fock_mo_a (projr (save_wavefunction 2 h2_one_body h2_two_body)) (0, 1) = 0 \<and>
   scf_fock_mo_b (projr (save_wavefunction 2 h2_one_body h2_two_body)) (0, 1) = 0 \<and>
   scf_fock_mo_a (projr (save_wavefunction 2 h2_one_body h2_two_body)) (1, 1) = - 1 / 2 \<and>
   h2_one_body (5, 5) = None \<and>
   one_body_fill 3 h2_one_body = Inl KeyError \<and>
   save_wavefunction 3 h2_one_body h2_two_body = Inl KeyError"
proof -
  have ok: "\<not> isl (save_wavefunction 2 h2_one_body h2_two_body)"
    by (rule h2_saves)
  then have h: "save_wavefunction 2 h2_one_body h2_two_body =
      Inr (projr (save_wavefunction 2 h2_one_body h2_two_body))"
    by simp
  have k: "h2_one_body (1, 3) = Some (PyReal (1 / 10 ^ 9))" "h2_one_body (2, 4) = Some (PyReal 0)"
    "h2_one_body (3, 3) = Some (PyReal (- 1 / 2))" "h2_one_body (4, 4) = Some (PyReal (- 1 / 2))"
    "h2_one_body (5, 5) = None"
    by (simp_all add: h2_one_body_def)
  have lt: "(0 :: nat) < 2" "(1 :: nat) < 2" "(2 :: nat) < 3" by simp_all
  note a = one_body_expansion [OF h2_one_body_real lt(1) lt(2), of h2_two_body,
      THEN conjunct2, THEN conjunct2, THEN conjunct2, rule_format, OF h]
  note b = one_body_expansion [OF h2_one_body_real lt(2) lt(2), of h2_two_body,
      THEN conjunct2, THEN conjunct2, THEN conjunct2, rule_format, OF h]
  have m: "h2_one_body (2 * int 2 + 1, 2 * int 2 + 1) = None \<or>
      h2_one_body (2 * int 2 + 2, 2 * int 2 + 2) = None"
    by (simp add: h2_one_body_def)
  note c = one_body_expansion [OF h2_one_body_real lt(3) lt(3), of h2_two_body,
      THEN conjunct1, rule_format, OF m]
  show ?thesis
    using ok k a b c by (auto simp: EQ_TOLERANCE_def)
qed

subsection \<open>Complex values\<close>

lemma two_body_cell_error:
  assumes "two_body_cell tbi p q r s st = Inl e"
  shows "e = TypeError"
proof -
  have aa: "e' = TypeError" if "aa_branch tbi p q r s st0 = Inl e'" for st0 e'
    using that sym_fill_Inl
    by (auto simp: aa_branch_def ebind_def split: option.splits sum.splits)
  have bb: "e' = TypeError" if "bb_branch tbi p q r s st0 = Inl e'" for st0 e'
    using that sym_fill_Inl
    by (auto simp: bb_branch_def ebind_def split: option.splits sum.splits)
  have ab: "e' = TypeError" if "ab_branch tbi p q r s st0 = Inl e'" for st0 e'
    using that sym_fill_Inl
    by (auto simp: ab_branch_def ebind_def split: option.splits sum.splits)
  have ba: "e' = TypeError" if "ba_branch tbi p q r s st0 = Inl e'" for st0 e'
    using that sym_fill_Inl
    by (auto simp: ba_branch_def ebind_def split: option.splits sum.splits)
  show ?thesis
    using assms aa bb ab ba
    by (auto simp: two_body_cell_def ebind_def split: sum.splits)
qed

lemma two_body_fill_error:
  assumes "two_body_fill nmo tbi = Inl e"
  shows "e = TypeError"
  using assms unfolding two_body_fill_def
  by (elim for_each_error) (rule two_body_cell_error)

lemma two_body_cell_complex_ab:
  assumes "tbi (2 * int p + 1, 2 * int q + 2, 2 * int r + 2, 2 * int s + 1) = Some (PyComplex z)"
  shows "isl (two_body_cell tbi p q r s st)"
proof -
  have ab: "ab_branch tbi p q r s st0 = Inl TypeError" for st0
    using assms by (simp add: ab_branch_def sym_fill_complex)
  show ?thesis
  proof (cases "aa_branch tbi p q r s st")
    case (Inl e)
    then show ?thesis by (simp add: two_body_cell_def)
  next
    case s1: (Inr s1)
    show ?thesis
    proof (cases "bb_branch tbi p q r s s1")
      case (Inl e)
      then show ?thesis using s1 by (simp add: two_body_cell_def)
    next
      case (Inr s2)
      then show ?thesis using s1 ab [of s2] by (simp add: two_body_cell_def)
    qed
  qed
qed

lemma nested_loops_fail:
  assumes "p \<in> set ps" and "q \<in> set qs" and "r \<in> set rs" and "s \<in> set ss"
    and "\<And>st. isl (body p q r s st)"
  shows "isl (for_each (\<lambda>p.
       for_each (\<lambda>q.
         for_each (\<lambda>r.
           for_each (\<lambda>s. body p q r s) ss)
         rs)
       qs)
     ps st)"
proof (rule for_each_step_fails [OF assms(1)])
  fix s0
  show "isl (for_each (\<lambda>q. for_each (\<lambda>r. for_each (\<lambda>s. body p q r s) ss) rs) qs s0)"
  proof (rule for_each_step_fails [OF assms(2)])
    fix s1
    show "isl (for_each (\<lambda>r. for_each (\<lambda>s. body p q r s) ss) rs s1)"
    proof (rule for_each_step_fails [OF assms(3)])
      fix s2
      show "isl (for_each (\<lambda>s. body p q r s) ss s2)"
        by (rule for_each_step_fails [OF assms(4)]) (rule assms(5))
    qed
  qed
qed

lemma two_body_fill_complex_value:
  assumes "p < nmo" and "q < nmo" and "r < nmo" and "s < nmo"
    and "tbi (2 * int p + 1, 2 * int q + 2, 2 * int r + 2, 2 * int s + 1) = Some (PyComplex z)"
  shows "two_body_fill nmo tbi = Inl TypeError"
proof -
  have "isl (two_body_fill nmo tbi)"
    unfolding two_body_fill_def
    by (rule nested_loops_fail [where p = p and q = q and r = r and s = s])
      (use assms(1-4) in simp_all,
       rule two_body_cell_complex_ab
         [where tbi = tbi and p = p and q = q and r = r and s = s, OF assms(5)])
  then obtain e where "two_body_fill nmo tbi = Inl e"
    by (cases "two_body_fill nmo tbi") simp_all
  then show ?thesis using two_body_fill_error by blast
qed

text \<open>A real entry under the alpha-beta key of a quadruple \<open>(n,n,n,n)\<close>: no other visit of
  the loops writes to that cell of the array ab, and it ends up there.\<close>

lemma diagonal_in_orbit:
  fixes p q r s :: nat
  assumes "(n, n, n, n) \<in> {(p, q, r, s), (q, p, s, r), (r, s, p, q), (s, r, q, p)}"
  shows "p = n \<and> q = n \<and> r = n \<and> s = n"
  using assms by (elim insertE emptyE) simp_all

lemma sym_fill_diagonal_other:
  assumes "sym_fill arr p q r s v = Inr arr'" and "(p, q, r, s) \<noteq> (n, n, n, n)"
  shows "arr' (n, n, n, n) = arr (n, n, n, n)"
  using assms(1)
proof (rule sym_fill_Inr)
  fix x
  assume arr': "arr' = arr((p, q, r, s) := x, (q, p, s, r) := x, (r, s, p, q) := x, (s, r, q, p) := x)"
  have notin: "(n, n, n, n) \<notin> {(p, q, r, s), (q, p, s, r), (r, s, p, q), (s, r, q, p)}"
    using diagonal_in_orbit [of n p q r s] assms(2) by blast
  show ?thesis
    by (simp only: arr' fun_upd4 notin if_False)
qed

lemma sym_fill_diagonal_here:
  assumes "sym_fill arr n n n n (PyReal v) = Inr arr'"
  shows "arr' (n, n, n, n) = v"
  using assms by (auto simp: sym_fill_real)

lemma two_body_cell_ab_other:
  assumes "two_body_cell tbi p q r s st = Inr st'" and "(p, q, r, s) \<noteq> (n, n, n, n)"
  shows "two_body_coefficients_ab st' (n, n, n, n) = two_body_coefficients_ab st (n, n, n, n)"
proof -
  from assms(1) obtain s1 s2 s3 where
    aa: "aa_branch tbi p q r s st = Inr s1" and bb: "bb_branch tbi p q r s s1 = Inr s2" and
    ab: "ab_branch tbi p q r s s2 = Inr s3" and ba: "ba_branch tbi p q r s s3 = Inr st'"
    by (auto simp: two_body_cell_def ebind_eq_Inr)
  have "two_body_coefficients_ab s1 (n, n, n, n) = two_body_coefficients_ab st (n, n, n, n)"
    using aa sym_fill_diagonal_other [OF _ assms(2)]
    by (auto simp: aa_branch_def ebind_eq_Inr split: option.splits)
  moreover have "two_body_coefficients_ab s2 = two_body_coefficients_ab s1"
    using bb by (auto simp: bb_branch_def ebind_eq_Inr split: option.splits)
  moreover have "two_body_coefficients_ab s3 (n, n, n, n) = two_body_coefficients_ab s2 (n, n, n, n)"
    using ab sym_fill_diagonal_other [OF _ assms(2)]
    by (auto simp: ab_branch_def ebind_eq_Inr split: option.splits)
  moreover have "two_body_coefficients_ab st' = two_body_coefficients_ab s3"
    using ba by (auto simp: ba_branch_def ebind_eq_Inr split: option.splits)
  ultimately show ?thesis by simp
qed

lemma two_body_cell_ab_here:
  assumes "two_body_cell tbi n n n n st = Inr st'"
    and "tbi (2 * int n + 1, 2 * int n + 2, 2 * int n + 2, 2 * int n + 1) = Some (PyReal v)"
  shows "two_body_coefficients_ab st' (n, n, n, n) = v"
proof -
  from assms(1) obtain s2 s3 where
    ab: "ab_branch tbi n n n n s2 = Inr s3" and ba: "ba_branch tbi n n n n s3 = Inr st'"
    by (auto simp: two_body_cell_def ebind_eq_Inr)
  have "two_body_coefficients_ab s3 (n, n, n, n) = v"
    using ab assms(2) by (auto simp: ab_branch_def ebind_eq_Inr sym_fill_real)
  moreover have "two_body_coefficients_ab st' = two_body_coefficients_ab s3"
    using ba by (auto simp: ba_branch_def ebind_eq_Inr split: option.splits)
  ultimately show ?thesis by simp
qed

lemma two_body_fill_ab_diagonal:
  assumes "two_body_fill nmo tbi = Inr tb" and "n < nmo"
    and "tbi (2 * int n + 1, 2 * int n + 2, 2 * int n + 2, 2 * int n + 1) = Some (PyReal v)"
  shows "two_body_coefficients_ab tb (n, n, n, n) = v"
proof -
  define Q where "Q st \<longleftrightarrow> two_body_coefficients_ab st (n, n, n, n) = v" for st :: two_body
  have n: "n \<in> set [0 ..< nmo]" using assms(2) by simp
  have here: "Q st'" if "two_body_cell tbi n n n n st = Inr st'" for st st'
    using two_body_cell_ab_here [OF that assms(3)] by (simp add: Q_def)
  have keep: "Q st'" if "Q st" and "two_body_cell tbi p q r s st = Inr st'" for p q r s st st'
  proof (cases "(p, q, r, s) = (n, n, n, n)")
    case True
    then show ?thesis using here that(2) by simp
  next
    case False
    then show ?thesis using two_body_cell_ab_other [OF that(2) False] that(1) by (simp add: Q_def)
  qed
  have keep1: "Q st'"
    if "Q st" and "for_each (\<lambda>s. two_body_cell tbi p q r s) [0 ..< nmo] st = Inr st'"
    for p q r st st'
    using that(2,1) keep by (rule for_each_invariant [where P = Q])
  have keep2: "Q st'"
    if "Q st" and
      "for_each (\<lambda>r. for_each (\<lambda>s. two_body_cell tbi p q r s) [0 ..< nmo]) [0 ..< nmo] st = Inr st'"
    for p q st st'
    using that(2,1) keep1 by (rule for_each_invariant [where P = Q])
  have keep3: "Q st'"
    if "Q st" and
      "for_each (\<lambda>q. for_each (\<lambda>r. for_each (\<lambda>s. two_body_cell tbi p q r s) [0 ..< nmo])
          [0 ..< nmo]) [0 ..< nmo] st = Inr st'"
    for p st st'
    using that(2,1) keep2 by (rule for_each_invariant [where P = Q])
  have here1: "Q st'"
    if "for_each (\<lambda>s. two_body_cell tbi n n n s) [0 ..< nmo] st = Inr st'" for st st'
    by (rule for_each_establish [where Q = Q and x = n, OF that n]) (use here keep in blast)+
  have here2: "Q st'"
    if "for_each (\<lambda>r. for_each (\<lambda>s. two_body_cell tbi n n r s) [0 ..< nmo]) [0 ..< nmo] st = Inr st'"
    for st st'
    by (rule for_each_establish [where Q = Q and x = n, OF that n]) (use here1 keep1 in blast)+
  have here3: "Q st'"
    if "for_each (\<lambda>q. for_each (\<lambda>r. for_each (\<lambda>s. two_body_cell tbi n q r s) [0 ..< nmo])
          [0 ..< nmo]) [0 ..< nmo] st = Inr st'"
    for st st'
    by (rule for_each_establish [where Q = Q and x = n, OF that n]) (use here2 keep2 in blast)+
  have "Q tb"
    by (rule for_each_establish
          [where Q = Q and x = n, OF assms(1) [unfolded two_body_fill_def] n])
       (use here3 keep3 in blast)+
  then show ?thesis by (simp add: Q_def)
qed

lemma complex_fcidump_parsed:
  "get_integrals dec_int dec_float complex_fcidump =
     Inr \<lparr>e_core = PyReal 0, spinor = Map.empty,
          one_body_int = [(1, 1) \<mapsto> PyComplex (Complex (- 5 / 4) 0),
                          (2, 2) \<mapsto> PyComplex (Complex (- 5 / 4) 0)],
          two_body_int = [(1, 2, 2, 1) \<mapsto> PyComplex (Complex (1 / 10) (1 / 5))]\<rparr>"
  by (simp add: complex_fcidump_def get_integrals_rest py_split_def isspace_def complex_row_def
      item_def to_int_def to_float_def dec_int_def dec_float_def dec_ufloat_def dec_nat_def
      digit_def init_integrals_def)

text \<open>
  Claim C2. For a complex record with the two-body entry \<open>(1,2,2,1) = 0.1+0.2i\<close> the claim
  has \<open>block_ab\<close> carry \<open>0.1+0.2i\<close> at the direct position and the conjugate \<open>0.1-0.2i\<close>
  at the pair-swapped one. The code does not get there. \<^verbatim>\<open>get_integrals\<close> builds the
  values of a file with six tokens per row as Python \<^verbatim>\<open>complex\<close> numbers, and \<^verbatim>\<open>save\<close>
  applies \<^verbatim>\<open>np.conj\<close> to them, but every dense array is allocated with
  \<^verbatim>\<open>dtype=np.float64\<close>, and assigning a \<^verbatim>\<open>complex\<close> to one of its cells raises
  \<^verbatim>\<open>TypeError\<close>. On the file \<open>complex_fcidump\<close>, with one spatial orbital, the reader returns
  the record with \<open>(1,2,2,1) \<mapsto> 0.1+0.2i\<close>; the two-body loops on it raise \<^verbatim>\<open>TypeError\<close>,
  and so does the whole expansion: no block is produced.
\<close>

theorem complex_record_raises_TypeError:
  "\<not> isl (get_integrals dec_int dec_float complex_fcidump) \<and>
   two_body_int (projr (get_integrals dec_int dec_float complex_fcidump)) (1, 2, 2, 1)
     = Some (PyComplex (Complex (1 / 10) (1 / 5))) \<and>
   two_body_fill 1 (two_body_int (projr (get_integrals dec_int dec_float complex_fcidump)))
     = Inl TypeError \<and>
   save_wavefunction 1
     (one_body_int (projr (get_integrals dec_int dec_float complex_fcidump)))
     (two_body_int (projr (get_integrals dec_int dec_float complex_fcidump)))
     = Inl TypeError"
  by (simp add: complex_fcidump_parsed save_wavefunction_def one_body_fill_def two_body_fill_def
      one_body_cell_def two_body_cell_def aa_branch_def bb_branch_def ab_branch_def
      ba_branch_def sym_fill_def lookup_def Let_def)

end
